theory Spec2Isabelle
  imports Main
begin

section \<open>NovaFund indexer: ledger cursor tracker\<close>

text \<open>
  A shallow embedding of the backend indexer of NovaFund
  (\<^verbatim>\<open>backend/src/indexer/services\<close>). Ledger sequences and every other
  TypeScript \<^verbatim>\<open>number\<close> the services compute with are integers here. A table of
  the persistent store is the list of its rows; an asynchronous method becomes a function
  from the store to a result and the store it leaves, and an exception is a value
  \<open>Inl e\<close> of the result.
\<close>

subsection \<open>Numbers as text\<close>

text \<open>
  \<^verbatim>\<open>Number.prototype.toString\<close> and template literals, on integers: the decimal
  digits, with a minus sign in front of a negative number. This is the text of an integer
  below \<open>10\<^sup>2\<^sup>1\<close> in magnitude, which covers every ledger sequence, project id and
  attempt count the services handle; from there on JavaScript writes an exponent.
\<close>

fun digits :: "nat \<Rightarrow> string" where
  "digits n =
     (if n < 10 then [''0123456789'' ! n]
      else digits (n div 10) @ [''0123456789'' ! (n mod 10)])"

declare digits.simps [simp del]

definition toString :: "int \<Rightarrow> string" where
  "toString i = (if i < 0 then CHR ''-'' # digits (nat (- i)) else digits (nat i))"

subsection \<open>Errors\<close>

text \<open>
  What the services can throw: the store's \<^verbatim>\<open>update\<close> on a row that does not
  exist, the two errors of \<^verbatim>\<open>BigInt(...)\<close> and of a method call on
  \<^verbatim>\<open>undefined\<close>, an argument the store's client refuses (an undefined key, an
  invalid date), and \<^verbatim>\<open>new Error(message)\<close>.
\<close>

datatype error =
    RecordNotFound
  | TypeError
  | SyntaxError
  | InvalidArgument
  | Error string

subsection \<open>Types of \<^verbatim>\<open>ledger.types.ts\<close> and the tracker's tables\<close>

text \<open>
  A row of the \<^verbatim>\<open>ledgerCursor\<close> table (unique on the network; the hash column is
  nullable) and the \<^verbatim>\<open>LedgerCursor\<close> that \<^verbatim>\<open>getLastCursor\<close> returns. The row's
  generated id and its two timestamps are never read by the tracker and are left out.
\<close>

record cursor_row =
  cur_network :: string
  cur_lastLedgerSeq :: int
  cur_lastLedgerHash :: "string option"

record LedgerCursor =
  network_of :: string
  lastLedgerSeq :: int
  lastLedgerHash :: "string option"

record LedgerInfo =
  sequence :: int
  hash :: string
  prevHash :: string

record ReorgDetectionResult =
  hasReorg :: bool
  reorgDepth :: int
  lastValidLedger :: int
  newLatestLedger :: int

record processed_row =
  pe_eventId :: string
  pe_network :: string
  pe_ledgerSeq :: int
  pe_contractId :: string
  pe_eventType :: string
  pe_transactionHash :: string

text \<open>
  A row of \<^verbatim>\<open>indexerLog\<close>: the level and the message (the metadata object is
  written and never read).
\<close>

record log_row =
  log_level :: string
  log_message :: string

record tracker_store =
  ledgerCursor :: "cursor_row list"
  processedEvent :: "processed_row list"
  indexerLog :: "log_row list"

text \<open>
  The three configuration values the tracker reads. The threshold is declared in
  \<^verbatim>\<open>env.validation.ts\<close> and reaches the tracker as a number. \<^verbatim>\<open>INDEXER_START_LEDGER\<close>
  is not declared there, so \<^verbatim>\<open>ConfigService.get\<close> hands the tracker the text of the
  environment variable as it is, whatever type the call names; \<open>None\<close> is a variable that
  is not set.
\<close>

record tracker_config =
  network :: string
  reorgDepthThreshold :: int
  INDEXER_START_LEDGER :: "string option"

text \<open>
  What \<^verbatim>\<open>getStartLedger\<close> returns: a number, or the configured text itself.
\<close>

datatype js_value = JSNumber int | JSString string

subsection \<open>\<^verbatim>\<open>LedgerTrackerService\<close>\<close>

text \<open>
  \<^verbatim>\<open>x || undefined\<close> and \<^verbatim>\<open>x || null\<close> on an optional string: the empty string
  is falsy and becomes absent.
\<close>

definition or_absent :: "string option \<Rightarrow> string option" where
  "or_absent h = (case h of None \<Rightarrow> None | Some s \<Rightarrow> if s = [] then None else Some s)"

definition getLastCursor :: "tracker_config \<Rightarrow> tracker_store \<Rightarrow> LedgerCursor option" where
  "getLastCursor cfg st =
     (case find (\<lambda>r. cur_network r = network cfg) (ledgerCursor st) of
        None \<Rightarrow> None
      | Some cursor \<Rightarrow>
          Some \<lparr> network_of = cur_network cursor,
                 lastLedgerSeq = cur_lastLedgerSeq cursor,
                 lastLedgerHash = or_absent (cur_lastLedgerHash cursor) \<rparr>)"

text \<open>
  \<^verbatim>\<open>ledgerCursor.upsert\<close> keyed on the network: the rows of the network are rewritten,
  or one row is created.
\<close>

definition initializeCursor :: "tracker_config \<Rightarrow> int \<Rightarrow> tracker_store \<Rightarrow> tracker_store" where
  "initializeCursor cfg startLedger st =
     (if list_ex (\<lambda>r. cur_network r = network cfg) (ledgerCursor st)
      then st\<lparr> ledgerCursor :=
               map (\<lambda>r. if cur_network r = network cfg
                         then r\<lparr> cur_lastLedgerSeq := startLedger, cur_lastLedgerHash := None \<rparr>
                         else r) (ledgerCursor st) \<rparr>
      else st\<lparr> ledgerCursor := ledgerCursor st @
               [\<lparr> cur_network = network cfg, cur_lastLedgerSeq = startLedger,
                  cur_lastLedgerHash = None \<rparr>] \<rparr>)"

text \<open>
  \<^verbatim>\<open>ledgerCursor.update\<close>: the store throws when the network has no row.
\<close>

definition updateCursor ::
  "tracker_config \<Rightarrow> int \<Rightarrow> string option \<Rightarrow> tracker_store \<Rightarrow> error + tracker_store" where
  "updateCursor cfg ledgerSeq ledgerHash st =
     (if list_ex (\<lambda>r. cur_network r = network cfg) (ledgerCursor st)
      then Inr (st\<lparr> ledgerCursor :=
               map (\<lambda>r. if cur_network r = network cfg
                         then r\<lparr> cur_lastLedgerSeq := ledgerSeq,
                                cur_lastLedgerHash := or_absent ledgerHash \<rparr>
                         else r) (ledgerCursor st) \<rparr>)
      else Inl RecordNotFound)"

definition detectReorg ::
  "tracker_config \<Rightarrow> tracker_store \<Rightarrow> LedgerInfo \<Rightarrow> ReorgDetectionResult" where
  "detectReorg cfg st currentLedger =
     (case getLastCursor cfg st of
        None \<Rightarrow>
          \<lparr> hasReorg = False, reorgDepth = 0,
            lastValidLedger = sequence currentLedger - 1,
            newLatestLedger = sequence currentLedger \<rparr>
      | Some cursor \<Rightarrow>
          (case or_absent (lastLedgerHash cursor) of
             None \<Rightarrow>
               \<lparr> hasReorg = False, reorgDepth = 0,
                 lastValidLedger = sequence currentLedger - 1,
                 newLatestLedger = sequence currentLedger \<rparr>
           | Some cursorHash \<Rightarrow>
               if sequence currentLedger = lastLedgerSeq cursor then
                 (let reorg = (hash currentLedger \<noteq> cursorHash) in
                  \<lparr> hasReorg = reorg,
                    reorgDepth = (if reorg then 1 else 0),
                    lastValidLedger =
                      (if reorg then sequence currentLedger - 1 else sequence currentLedger),
                    newLatestLedger = sequence currentLedger \<rparr>)
               else if sequence currentLedger > lastLedgerSeq cursor then
                 \<lparr> hasReorg = False, reorgDepth = 0,
                   lastValidLedger = lastLedgerSeq cursor,
                   newLatestLedger = sequence currentLedger \<rparr>
               else
                 \<lparr> hasReorg = True,
                   reorgDepth = lastLedgerSeq cursor - sequence currentLedger,
                   lastValidLedger = sequence currentLedger,
                   newLatestLedger = sequence currentLedger \<rparr>))"

text \<open>
  \<^verbatim>\<open>handleReorg\<close>: the rows are deleted before the cursor is updated, so a failing
  update leaves the store with the rows already gone.
\<close>

definition handleReorg ::
  "tracker_config \<Rightarrow> ReorgDetectionResult \<Rightarrow> tracker_store \<Rightarrow> (error + int) \<times> tracker_store" where
  "handleReorg cfg reorgResult st =
     (if \<not> hasReorg reorgResult then (Inr (newLatestLedger reorgResult), st)
      else
        let rollbackDepth = min (reorgDepth reorgResult + 2) (reorgDepthThreshold cfg);
            safeLedgerSeq = max 0 (lastValidLedger reorgResult - rollbackDepth);
            st1 = st\<lparr> processedEvent :=
                    filter (\<lambda>r. \<not> (pe_network r = network cfg \<and> pe_ledgerSeq r > safeLedgerSeq))
                      (processedEvent st) \<rparr>
        in (case updateCursor cfg safeLedgerSeq None st1 of
              Inl e \<Rightarrow> (Inl e, st1)
            | Inr st2 \<Rightarrow> (Inr safeLedgerSeq, st2)))"

definition isEventProcessed :: "tracker_config \<Rightarrow> tracker_store \<Rightarrow> string \<Rightarrow> bool" where
  "isEventProcessed cfg st eventId =
     (length (filter (\<lambda>r. pe_eventId r = eventId \<and> pe_network r = network cfg)
        (processedEvent st)) > 0)"

text \<open>
  \<^verbatim>\<open>processedEvent.upsert\<close> keyed on the event id alone, with an empty update: a row
  with that id, of whatever network, is left as it is.
\<close>

definition markEventProcessed ::
  "tracker_config \<Rightarrow> string \<Rightarrow> int \<Rightarrow> string \<Rightarrow> string \<Rightarrow> string \<Rightarrow> tracker_store \<Rightarrow> tracker_store" where
  "markEventProcessed cfg eventId ledgerSeq contractId eventType transactionHash st =
     (if list_ex (\<lambda>r. pe_eventId r = eventId) (processedEvent st) then st
      else st\<lparr> processedEvent := processedEvent st @
               [\<lparr> pe_eventId = eventId, pe_network = network cfg, pe_ledgerSeq = ledgerSeq,
                  pe_contractId = contractId, pe_eventType = eventType,
                  pe_transactionHash = transactionHash \<rparr>] \<rparr>)"

text \<open>
  \<^verbatim>\<open>getStartLedger\<close>. \<^verbatim>\<open>if (configuredStart)\<close> is a truthiness test on the
  configured text: every text but the empty one passes, \<^verbatim>\<open>'0'\<close> included. In
  \<^verbatim>\<open>configuredStart - 1\<close> the text is converted to a number; which integer a text
  converts to is the language's matter and a parameter \<open>toNumber\<close> here, \<open>None\<close> for a
  text that converts to no integer, whose cursor the store's client is taken to refuse
  for its integer column. The value returned is the configured text itself.
\<close>

definition getStartLedger ::
  "(string \<Rightarrow> int option) \<Rightarrow> tracker_config \<Rightarrow> int \<Rightarrow> tracker_store
     \<Rightarrow> (error + js_value) \<times> tracker_store" where
  "getStartLedger toNumber cfg latestLedger st =
     (case getLastCursor cfg st of
        Some cursor \<Rightarrow> (Inr (JSNumber (lastLedgerSeq cursor + 1)), st)
      | None \<Rightarrow>
          (case or_absent (INDEXER_START_LEDGER cfg) of
             Some configuredStart \<Rightarrow>
               (case toNumber configuredStart of
                  None \<Rightarrow> (Inl InvalidArgument, st)
                | Some n \<Rightarrow> (Inr (JSString configuredStart), initializeCursor cfg (n - 1) st))
           | None \<Rightarrow> (Inr (JSNumber latestLedger), initializeCursor cfg (latestLedger - 1) st)))"

definition logError :: "string \<Rightarrow> tracker_store \<Rightarrow> tracker_store" where
  "logError message st =
     st\<lparr> indexerLog := indexerLog st @ [\<lparr> log_level = ''error'', log_message = message \<rparr>] \<rparr>"

definition logProgress :: "int \<Rightarrow> int \<Rightarrow> int \<Rightarrow> tracker_store \<Rightarrow> tracker_store" where
  "logProgress currentLedger targetLedger eventsProcessed st =
     st\<lparr> indexerLog := indexerLog st @
           [\<lparr> log_level = ''info'',
              log_message = ''Processed ledger '' @ toString currentLedger \<rparr>] \<rparr>"

text \<open>
  The resumption point of a rollback in the words of the specification: the reported depth
  plus a buffer of two ledgers, capped at the threshold, taken off the last valid ledger
  and never below zero.
\<close>

definition spec_safeLedger :: "int \<Rightarrow> int \<Rightarrow> int \<Rightarrow> int" where
  "spec_safeLedger depth lastValid threshold = max 0 (lastValid - min (depth + 2) threshold)"

text \<open>
  What the specification asks of a rollback, as a predicate on the result and the store that
  \<^verbatim>\<open>handleReorg\<close> leaves: the safe ledger is returned, the dedup rows left are exactly
  those that are not both of the network and beyond the safe ledger, the cursor reads the
  safe ledger, and the log is as it was.
\<close>

definition rolled_back ::
  "tracker_config \<Rightarrow> ReorgDetectionResult \<Rightarrow> tracker_store \<Rightarrow> (error + int) \<times> tracker_store \<Rightarrow> bool" where
  "rolled_back cfg r st res =
     (fst res = Inr (spec_safeLedger (reorgDepth r) (lastValidLedger r) (reorgDepthThreshold cfg))
      \<and> processedEvent (snd res)
          = filter (\<lambda>e. \<not> (pe_network e = network cfg
                \<and> pe_ledgerSeq e
                    > spec_safeLedger (reorgDepth r) (lastValidLedger r) (reorgDepthThreshold cfg)))
              (processedEvent st)
      \<and> map_option lastLedgerSeq (getLastCursor cfg (snd res))
          = Some (spec_safeLedger (reorgDepth r) (lastValidLedger r) (reorgDepthThreshold cfg))
      \<and> indexerLog (snd res) = indexerLog st)"

section \<open>Event decoder and fetcher\<close>

subsection \<open>Types of \<^verbatim>\<open>event-types.ts\<close>\<close>

text \<open>
  \<^verbatim>\<open>ContractEventType\<close> is a string enumeration: at run time a member is its string,
  and \<^verbatim>\<open>Object.values\<close> lists the strings in the order of declaration.
\<close>

type_synonym ContractEventType = string

definition ContractEventType_values :: "ContractEventType list" where
  "ContractEventType_values =
     [''proj_new'', ''proj_fund'', ''proj_done'', ''proj_fail'',
      ''contrib'', ''refund'',
      ''esc_init'', ''lock'', ''release'', ''m_create'', ''m_submit'', ''m_apprv'',
      ''m_reject'', ''milestone'', ''v_update'',
      ''profit'', ''claim'',
      ''proposal'', ''vote'', ''execute'',
      ''user_reg'', ''rep_up'', ''badge'',
      ''pay_setup'', ''pay_recv'', ''pay_withd'',
      ''subscr'', ''sub_cancl'', ''sub_mod'', ''sub_pause'', ''sub_resum'', ''pay_fail'',
      ''deposit'',
      ''br_init'', ''chain_add'', ''chain_rem'', ''wrap'', ''unwrap'', ''br_dep'',
      ''br_wdraw'', ''br_pause'', ''br_res'', ''rel_add'', ''rel_rem'', ''tx_conf'',
      ''tx_fail'',
      ''esc_pause'', ''esc_resum'', ''upg_sched'', ''upg_exec'', ''upg_canc'']"

abbreviation PROJECT_CREATED :: ContractEventType where "PROJECT_CREATED \<equiv> ''proj_new''"
abbreviation PROJECT_COMPLETED :: ContractEventType where "PROJECT_COMPLETED \<equiv> ''proj_done''"
abbreviation PROJECT_FAILED :: ContractEventType where "PROJECT_FAILED \<equiv> ''proj_fail''"
abbreviation CONTRIBUTION_MADE :: ContractEventType where "CONTRIBUTION_MADE \<equiv> ''contrib''"
abbreviation FUNDS_RELEASED :: ContractEventType where "FUNDS_RELEASED \<equiv> ''release''"
abbreviation MILESTONE_APPROVED :: ContractEventType where "MILESTONE_APPROVED \<equiv> ''m_apprv''"

text \<open>The raw event of the RPC (\<^verbatim>\<open>SorobanEvent\<close>).\<close>

record SorobanEvent =
  ev_type :: string
  ev_ledger :: int
  ev_ledgerClosedAt :: string
  ev_contractId :: string
  ev_id :: string
  ev_pagingToken :: string
  ev_topic :: "string list"
  ev_value :: string
  ev_inSuccessfulContractCall :: bool
  ev_txHash :: string

text \<open>
  A \<^verbatim>\<open>Date\<close>, kept as what it was built from: the text of \<^verbatim>\<open>new Date(string)\<close> or the
  milliseconds of \<^verbatim>\<open>new Date(number)\<close>.
\<close>

datatype js_date = DateOfString string | DateOfMillis int

text \<open>
  The \<^verbatim>\<open>data\<close> object of a parsed event is a \<^verbatim>\<open>Record<string, unknown>\<close> that the
  handlers read through the interfaces \<^verbatim>\<open>ProjectCreatedEvent\<close>,
  \<^verbatim>\<open>ContributionMadeEvent\<close>, \<^verbatim>\<open>MilestoneApprovedEvent\<close>, \<^verbatim>\<open>FundsReleasedEvent\<close>
  and \<^verbatim>\<open>ProjectStatusEvent\<close>. Here it has one optional field for each key that is
  written or read, at the type the interfaces declare; \<open>None\<close> is \<^verbatim>\<open>undefined\<close>.
\<close>

record event_data =
  rawXdr :: "string option"
  data_eventType :: "ContractEventType option"
  projectId :: "int option"
  creator :: "string option"
  fundingGoal :: "string option"
  deadline :: "int option"
  token :: "string option"
  contributor :: "string option"
  amount :: "string option"
  totalRaised :: "string option"
  milestoneId :: "int option"

record ParsedContractEvent =
  eventId :: string
  ledgerSeq :: int
  ledgerClosedAt :: js_date
  contractId :: string
  eventType :: ContractEventType
  transactionHash :: string
  data :: event_data
  inSuccessfulContractCall :: bool

subsection \<open>Decoding (\<^verbatim>\<open>IndexerService\<close>)\<close>

text \<open>
  \<^verbatim>\<open>parseEventType\<close>: the first enumeration value equal to the symbol;
  \<^verbatim>\<open>eventType || null\<close> also turns an empty value into null.
\<close>

definition parseEventType :: "string \<Rightarrow> ContractEventType option" where
  "parseEventType symbol =
     (case find (\<lambda>t. t = symbol) ContractEventType_values of
        None \<Rightarrow> None
      | Some t \<Rightarrow> if t = [] then None else Some t)"

text \<open>
  \<^verbatim>\<open>parseEventData\<close> is a placeholder in the source: it returns the raw payload and
  the event type and decodes no field. Nothing in its \<^verbatim>\<open>try\<close> block can throw.
\<close>

definition parseEventData :: "string \<Rightarrow> ContractEventType \<Rightarrow> event_data" where
  "parseEventData valueXdr eventType' =
     \<lparr> rawXdr = Some valueXdr, data_eventType = Some eventType',
       projectId = None, creator = None, fundingGoal = None, deadline = None, token = None,
       contributor = None, amount = None, totalRaised = None, milestoneId = None \<rparr>"

text \<open>
  \<^verbatim>\<open>parseEvent\<close>: \<^verbatim>\<open>event.topic[0]\<close> is undefined on an empty topic, and an empty
  first symbol is falsy as well.
\<close>

definition parseEvent :: "SorobanEvent \<Rightarrow> ParsedContractEvent option" where
  "parseEvent event =
     (case ev_topic event of
        [] \<Rightarrow> None
      | eventTypeSymbol # _ \<Rightarrow>
          if eventTypeSymbol = [] then None
          else (case parseEventType eventTypeSymbol of
                  None \<Rightarrow> None
                | Some eventType' \<Rightarrow>
                    Some \<lparr> eventId = ev_id event,
                           ledgerSeq = ev_ledger event,
                           ledgerClosedAt = DateOfString (ev_ledgerClosedAt event),
                           contractId = ev_contractId event,
                           eventType = eventType',
                           transactionHash = ev_txHash event,
                           data = parseEventData (ev_value event) eventType',
                           inSuccessfulContractCall = ev_inSuccessfulContractCall event \<rparr>))"

subsection \<open>Fetching with retry (\<^verbatim>\<open>IndexerService\<close>)\<close>

text \<open>
  What the indexer reads of the configuration besides the tracker's part.
\<close>

record indexer_config =
  tracker_cfg :: tracker_config
  retryAttempts :: int
  retryDelayMs :: int

text \<open>
  \<^verbatim>\<open>fetchEvents\<close> talks to the remote RPC; what it returns is not decided by the
  program. Its outcome at the k-th call of a retry loop is given from outside: the message
  of the error it throws, or the events it returns. The loop records the number of calls
  it made and the delays it slept, in order.
\<close>

type_synonym fetch_outcome = "string + SorobanEvent list"

record retry_trace =
  fetchCalls :: nat
  sleeps :: "int list"

function fetchEventsWithRetry_loop ::
  "(nat \<Rightarrow> fetch_outcome) \<Rightarrow> indexer_config \<Rightarrow> nat \<Rightarrow> string option \<Rightarrow> retry_trace
     \<Rightarrow> (error + SorobanEvent list) \<times> retry_trace" where
  "fetchEventsWithRetry_loop fetchEvents cfg attempt lastError tr =
     (if int attempt \<le> retryAttempts cfg then
        (case fetchEvents attempt of
           Inr events \<Rightarrow> (Inr events, tr\<lparr> fetchCalls := fetchCalls tr + 1 \<rparr>)
         | Inl message \<Rightarrow>
             if int attempt < retryAttempts cfg
             then fetchEventsWithRetry_loop fetchEvents cfg (attempt + 1) (Some message)
                    (tr\<lparr> fetchCalls := fetchCalls tr + 1,
                         sleeps := sleeps tr @ [retryDelayMs cfg * 2 ^ (attempt - 1)] \<rparr>)
             else fetchEventsWithRetry_loop fetchEvents cfg (attempt + 1) (Some message)
                    (tr\<lparr> fetchCalls := fetchCalls tr + 1 \<rparr>))
      else
        (Inl (Error (''Failed to fetch events after '' @ toString (retryAttempts cfg)
                     @ '' attempts: ''
                     @ (case lastError of None \<Rightarrow> ''undefined'' | Some message \<Rightarrow> message))),
         tr))"
  by pat_completeness auto
termination
  by (relation "measure (\<lambda>(fetchEvents, cfg, attempt, lastError, tr).
        nat (retryAttempts cfg + 1 - int attempt))") auto

declare fetchEventsWithRetry_loop.simps [simp del]

definition fetchEventsWithRetry ::
  "(nat \<Rightarrow> fetch_outcome) \<Rightarrow> indexer_config
     \<Rightarrow> (error + SorobanEvent list) \<times> retry_trace" where
  "fetchEventsWithRetry fetchEvents cfg =
     fetchEventsWithRetry_loop fetchEvents cfg 1 None \<lparr> fetchCalls = 0, sleeps = [] \<rparr>"

section \<open>Handler registry (\<^verbatim>\<open>event-handler.service.ts\<close>)\<close>

subsection \<open>Domain tables\<close>

text \<open>
  Modelled from the spec: the rows of the domain tables User (keyed by wallet address),
  Project (keyed by the on-chain identifier), Contribution (keyed by transaction hash) and
  Milestone (keyed by project and ordinal). The store's schema is not among the sources;
  the rows have the columns the handlers read or write, the generated ids they pass on, and
  the ordinal of a milestone. A generated id is the next value of a counter. A column the
  handlers never set at creation (\<^verbatim>\<open>currentFunds\<close>, \<^verbatim>\<open>completionDate\<close>) is optional.
\<close>

record user_row =
  usr_id :: nat
  walletAddress :: string
  reputationScore :: int

record project_row =
  prj_id :: nat
  prj_contractId :: string
  creatorId :: nat
  title :: string
  category :: string
  goal :: int
  prj_deadline :: js_date
  prj_status :: string
  currentFunds :: "int option"

record contribution_row =
  ctb_transactionHash :: string
  investorId :: nat
  ctb_projectId :: nat
  ctb_amount :: int
  ctb_timestamp :: js_date

record milestone_row =
  ms_projectId :: nat
  ms_ordinal :: int
  ms_status :: string
  completionDate :: "js_date option"

record domain_store =
  users :: "user_row list"
  projects :: "project_row list"
  contributions :: "contribution_row list"
  milestones :: "milestone_row list"
  nextId :: nat

subsection \<open>JavaScript values\<close>

text \<open>
  Truthiness of an optional string and of an optional number; \<^verbatim>\<open>BigInt(x)\<close>, which
  throws a TypeError on \<^verbatim>\<open>undefined\<close> and a SyntaxError on a string that is not an
  integer literal. Which strings are integer literals is the language's matter: the
  reading of a string is a parameter \<open>bigint\<close> of the handlers.
\<close>

definition truthy_string :: "string option \<Rightarrow> bool" where
  "truthy_string x = (case x of None \<Rightarrow> False | Some s \<Rightarrow> s \<noteq> [])"

definition truthy_number :: "int option \<Rightarrow> bool" where
  "truthy_number x = (case x of None \<Rightarrow> False | Some n \<Rightarrow> n \<noteq> 0)"

definition BigInt :: "(string \<Rightarrow> int option) \<Rightarrow> string option \<Rightarrow> error + int" where
  "BigInt bigint x =
     (case x of
        None \<Rightarrow> Inl TypeError
      | Some s \<Rightarrow> (case bigint s of None \<Rightarrow> Inl SyntaxError | Some n \<Rightarrow> Inr n))"

subsection \<open>Store operations the handlers share\<close>

text \<open>
  \<^verbatim>\<open>user.upsert\<close> keyed on the wallet address with an empty update: the row found, or
  a new row with no reputation.
\<close>

definition upsert_user :: "string \<Rightarrow> domain_store \<Rightarrow> user_row \<times> domain_store" where
  "upsert_user wallet db =
     (case find (\<lambda>u. walletAddress u = wallet) (users db) of
        Some user \<Rightarrow> (user, db)
      | None \<Rightarrow>
          (let user = \<lparr> usr_id = nextId db, walletAddress = wallet, reputationScore = 0 \<rparr>
           in (user, db\<lparr> users := users db @ [user], nextId := nextId db + 1 \<rparr>)))"

definition findUnique_project :: "string \<Rightarrow> domain_store \<Rightarrow> project_row option" where
  "findUnique_project cid db = find (\<lambda>p. prj_contractId p = cid) (projects db)"

definition updateMany_milestone ::
  "nat \<Rightarrow> (milestone_row \<Rightarrow> milestone_row) \<Rightarrow> domain_store \<Rightarrow> domain_store" where
  "updateMany_milestone pid change db =
     db\<lparr> milestones := map (\<lambda>m. if ms_projectId m = pid then change m else m) (milestones db) \<rparr>"

definition updateMany_project ::
  "string \<Rightarrow> (project_row \<Rightarrow> project_row) \<Rightarrow> domain_store \<Rightarrow> domain_store" where
  "updateMany_project cid change db =
     db\<lparr> projects := map (\<lambda>p. if prj_contractId p = cid then change p else p) (projects db) \<rparr>"

subsection \<open>The six handlers\<close>

type_synonym handler_result = "(error + unit) \<times> domain_store"

record IEventHandler =
  h_eventType :: string
  validate :: "ParsedContractEvent \<Rightarrow> bool"
  handle :: "ParsedContractEvent \<Rightarrow> domain_store \<Rightarrow> handler_result"

definition ProjectCreated_validate :: "ParsedContractEvent \<Rightarrow> bool" where
  "ProjectCreated_validate event =
     (projectId (data event) \<noteq> None
      \<and> truthy_string (creator (data event))
      \<and> truthy_string (fundingGoal (data event))
      \<and> truthy_number (deadline (data event))
      \<and> truthy_string (token (data event)))"

definition ProjectCreated_handle ::
  "(string \<Rightarrow> int option) \<Rightarrow> ParsedContractEvent \<Rightarrow> domain_store \<Rightarrow> handler_result" where
  "ProjectCreated_handle bigint event db =
     (case creator (data event) of
        None \<Rightarrow> (Inl InvalidArgument, db)
      | Some wallet \<Rightarrow>
          (let (user, db1) = upsert_user wallet db in
           case projectId (data event) of
             None \<Rightarrow> (Inl TypeError, db1)
           | Some pid \<Rightarrow>
               (case BigInt bigint (fundingGoal (data event)) of
                  Inl e \<Rightarrow> (Inl e, db1)
                | Inr fundingGoal' \<Rightarrow>
                    (case deadline (data event) of
                       None \<Rightarrow> (Inl InvalidArgument, db1)
                     | Some deadline' \<Rightarrow>
                         if list_ex (\<lambda>p. prj_contractId p = toString pid) (projects db1)
                         then (Inr (),
                               updateMany_project (toString pid)
                                 (\<lambda>p. p\<lparr> title := ''Project '' @ toString pid,
                                          goal := fundingGoal',
                                          prj_deadline := DateOfMillis (deadline' * 1000),
                                          prj_status := ''ACTIVE'' \<rparr>) db1)
                         else (Inr (),
                               db1\<lparr> projects := projects db1 @
                                       [\<lparr> prj_id = nextId db1,
                                          prj_contractId = toString pid,
                                          creatorId = usr_id user,
                                          title = ''Project '' @ toString pid,
                                          category = ''uncategorized'',
                                          goal = fundingGoal',
                                          prj_deadline = DateOfMillis (deadline' * 1000),
                                          prj_status = ''ACTIVE'',
                                          currentFunds = None \<rparr>],
                                     nextId := nextId db1 + 1 \<rparr>)))))"

definition ContributionMade_validate :: "ParsedContractEvent \<Rightarrow> bool" where
  "ContributionMade_validate event =
     (projectId (data event) \<noteq> None
      \<and> truthy_string (contributor (data event))
      \<and> truthy_string (amount (data event)))"

text \<open>
  \<^verbatim>\<open>ContributionMadeHandler.handle\<close>: the user is upserted before the project is looked
  up, and the contribution is upserted before \<^verbatim>\<open>BigInt(data.totalRaised)\<close> is evaluated
  for the update of the project.
\<close>

definition ContributionMade_handle ::
  "(string \<Rightarrow> int option) \<Rightarrow> ParsedContractEvent \<Rightarrow> domain_store \<Rightarrow> handler_result" where
  "ContributionMade_handle bigint event db =
     (case contributor (data event) of
        None \<Rightarrow> (Inl InvalidArgument, db)
      | Some wallet \<Rightarrow>
          (let (user, db1) = upsert_user wallet db in
           case projectId (data event) of
             None \<Rightarrow> (Inl TypeError, db1)
           | Some pid \<Rightarrow>
               (case findUnique_project (toString pid) db1 of
                  None \<Rightarrow> (Inr (), db1)
                | Some project \<Rightarrow>
                    (case BigInt bigint (amount (data event)) of
                       Inl e \<Rightarrow> (Inl e, db1)
                     | Inr amount' \<Rightarrow>
                         (let db2 =
                            (if list_ex (\<lambda>c. ctb_transactionHash c = transactionHash event)
                                  (contributions db1)
                             then db1
                             else db1\<lparr> contributions := contributions db1 @
                                    [\<lparr> ctb_transactionHash = transactionHash event,
                                       investorId = usr_id user,
                                       ctb_projectId = prj_id project,
                                       ctb_amount = amount',
                                       ctb_timestamp = ledgerClosedAt event \<rparr>] \<rparr>)
                          in case BigInt bigint (totalRaised (data event)) of
                               Inl e \<Rightarrow> (Inl e, db2)
                             | Inr totalRaised' \<Rightarrow>
                                 (Inr (),
                                  db2\<lparr> projects :=
                                    map (\<lambda>p. if prj_id p = prj_id project
                                              then p\<lparr> currentFunds := Some totalRaised' \<rparr> else p)
                                      (projects db2) \<rparr>))))))"

definition MilestoneApproved_validate :: "ParsedContractEvent \<Rightarrow> bool" where
  "MilestoneApproved_validate event =
     (projectId (data event) \<noteq> None \<and> milestoneId (data event) \<noteq> None)"

text \<open>
  \<^verbatim>\<open>MilestoneApprovedHandler.handle\<close>: the \<^verbatim>\<open>where\<close> of \<^verbatim>\<open>milestone.updateMany\<close>
  holds the project id and nothing else.
\<close>

definition MilestoneApproved_handle :: "ParsedContractEvent \<Rightarrow> domain_store \<Rightarrow> handler_result" where
  "MilestoneApproved_handle event db =
     (case projectId (data event) of
        None \<Rightarrow> (Inl TypeError, db)
      | Some pid \<Rightarrow>
          (case findUnique_project (toString pid) db of
             None \<Rightarrow> (Inr (), db)
           | Some project \<Rightarrow>
               (Inr (),
                updateMany_milestone (prj_id project)
                  (\<lambda>m. m\<lparr> ms_status := ''APPROVED'' \<rparr>) db)))"

definition FundsReleased_validate :: "ParsedContractEvent \<Rightarrow> bool" where
  "FundsReleased_validate event =
     (projectId (data event) \<noteq> None \<and> truthy_string (amount (data event)))"

definition FundsReleased_handle :: "ParsedContractEvent \<Rightarrow> domain_store \<Rightarrow> handler_result" where
  "FundsReleased_handle event db =
     (case projectId (data event) of
        None \<Rightarrow> (Inl TypeError, db)
      | Some pid \<Rightarrow>
          (case findUnique_project (toString pid) db of
             None \<Rightarrow> (Inr (), db)
           | Some project \<Rightarrow>
               (Inr (),
                updateMany_milestone (prj_id project)
                  (\<lambda>m. m\<lparr> ms_status := ''FUNDED'',
                           completionDate := Some (ledgerClosedAt event) \<rparr>) db)))"

definition ProjectStatus_validate :: "ParsedContractEvent \<Rightarrow> bool" where
  "ProjectStatus_validate event = (projectId (data event) \<noteq> None)"

definition ProjectCompleted_handle :: "ParsedContractEvent \<Rightarrow> domain_store \<Rightarrow> handler_result" where
  "ProjectCompleted_handle event db =
     (case projectId (data event) of
        None \<Rightarrow> (Inl TypeError, db)
      | Some pid \<Rightarrow>
          (Inr (), updateMany_project (toString pid) (\<lambda>p. p\<lparr> prj_status := ''COMPLETED'' \<rparr>) db))"

definition ProjectFailed_handle :: "ParsedContractEvent \<Rightarrow> domain_store \<Rightarrow> handler_result" where
  "ProjectFailed_handle event db =
     (case projectId (data event) of
        None \<Rightarrow> (Inl TypeError, db)
      | Some pid \<Rightarrow>
          (Inr (), updateMany_project (toString pid) (\<lambda>p. p\<lparr> prj_status := ''CANCELLED'' \<rparr>) db))"

subsection \<open>\<^verbatim>\<open>EventHandlerService\<close>\<close>

text \<open>
  The registry is a \<^verbatim>\<open>Map\<close> from the event type to the handler; \<^verbatim>\<open>register\<close> is
  \<^verbatim>\<open>Map.set\<close>, and the constructor registers the six handlers in this order.
\<close>

definition register ::
  "IEventHandler \<Rightarrow> (string \<rightharpoonup> IEventHandler) \<Rightarrow> (string \<rightharpoonup> IEventHandler)" where
  "register handler handlers = handlers(h_eventType handler \<mapsto> handler)"

definition registerHandlers :: "(string \<Rightarrow> int option) \<Rightarrow> (string \<rightharpoonup> IEventHandler)" where
  "registerHandlers bigint =
     register \<lparr> h_eventType = PROJECT_FAILED, validate = ProjectStatus_validate,
                handle = ProjectFailed_handle \<rparr>
    (register \<lparr> h_eventType = PROJECT_COMPLETED, validate = ProjectStatus_validate,
                handle = ProjectCompleted_handle \<rparr>
    (register \<lparr> h_eventType = FUNDS_RELEASED, validate = FundsReleased_validate,
                handle = FundsReleased_handle \<rparr>
    (register \<lparr> h_eventType = MILESTONE_APPROVED, validate = MilestoneApproved_validate,
                handle = MilestoneApproved_handle \<rparr>
    (register \<lparr> h_eventType = CONTRIBUTION_MADE, validate = ContributionMade_validate,
                handle = ContributionMade_handle bigint \<rparr>
    (register \<lparr> h_eventType = PROJECT_CREATED, validate = ProjectCreated_validate,
                handle = ProjectCreated_handle bigint \<rparr>
     Map.empty)))))"

definition getHandler :: "(string \<rightharpoonup> IEventHandler) \<Rightarrow> string \<Rightarrow> IEventHandler option" where
  "getHandler handlers eventType' = handlers eventType'"

text \<open>
  \<^verbatim>\<open>EventHandlerService.processEvent\<close>: false with no handler or a failed validation,
  true after the handler ran; what the handler throws is logged and thrown again.
\<close>

definition EventHandlerService_processEvent ::
  "(string \<Rightarrow> int option) \<Rightarrow> ParsedContractEvent \<Rightarrow> domain_store
     \<Rightarrow> (error + bool) \<times> domain_store" where
  "EventHandlerService_processEvent bigint event db =
     (case getHandler (registerHandlers bigint) (eventType event) of
        None \<Rightarrow> (Inr False, db)
      | Some handler \<Rightarrow>
          if \<not> validate handler event then (Inr False, db)
          else (case handle handler event db of
                  (Inl e, db') \<Rightarrow> (Inl e, db')
                | (Inr _, db') \<Rightarrow> (Inr True, db')))"

section \<open>Poll orchestrator (\<^verbatim>\<open>IndexerService\<close>)\<close>

text \<open>
  The indexer holds the tracker's tables, the domain tables and its \<^verbatim>\<open>isRunning\<close> flag.
  The handler service is injected through the constructor: the orchestrator is defined for
  any service, a function from a parsed event and the domain tables to its result and the
  domain tables it leaves.
\<close>

record indexer =
  tracker :: tracker_store
  domain :: domain_store
  isRunning :: bool

type_synonym handler_service =
  "ParsedContractEvent \<Rightarrow> domain_store \<Rightarrow> (error + bool) \<times> domain_store"

definition IndexerService_processEvent ::
  "handler_service \<Rightarrow> indexer_config \<Rightarrow> SorobanEvent \<Rightarrow> indexer \<Rightarrow> (error + bool) \<times> indexer" where
  "IndexerService_processEvent eventHandler cfg event s =
     (if isEventProcessed (tracker_cfg cfg) (tracker s) (ev_id event) then (Inr False, s)
      else
        (case parseEvent event of
           None \<Rightarrow> (Inr False, s)
         | Some parsedEvent \<Rightarrow>
             (case eventHandler parsedEvent (domain s) of
                (Inl e, db') \<Rightarrow> (Inl e, s\<lparr> domain := db' \<rparr>)
              | (Inr success, db') \<Rightarrow>
                  if success
                  then (Inr True,
                        s\<lparr> domain := db',
                           tracker := markEventProcessed (tracker_cfg cfg) (ev_id event)
                             (ev_ledger event) (ev_contractId event) (eventType parsedEvent)
                             (ev_txHash event) (tracker s) \<rparr>)
                  else (Inr False, s\<lparr> domain := db' \<rparr>))))"

text \<open>
  The loop over the fetched events, with its two counters: an event whose processing throws
  is counted, its failure is written to the log, and the loop goes on.
\<close>

fun processBatch ::
  "handler_service \<Rightarrow> indexer_config \<Rightarrow> SorobanEvent list \<Rightarrow> nat \<times> nat \<times> indexer
     \<Rightarrow> nat \<times> nat \<times> indexer" where
  "processBatch eventHandler cfg [] acc = acc"
| "processBatch eventHandler cfg (event # rest) (processedCount, errorCount, s) =
     (case IndexerService_processEvent eventHandler cfg event s of
        (Inr success, s1) \<Rightarrow>
          processBatch eventHandler cfg rest
            (if success then processedCount + 1 else processedCount, errorCount, s1)
      | (Inl e, s1) \<Rightarrow>
          processBatch eventHandler cfg rest
            (processedCount, errorCount + 1,
             s1\<lparr> tracker := logError (''Event processing failed: '' @ ev_id event) (tracker s1) \<rparr>))"

text \<open>
  What the remote RPC answers during one poll cycle: the latest ledger, or the error of
  \<^verbatim>\<open>getLatestLedger\<close>, and the outcome of each call of \<^verbatim>\<open>fetchEvents\<close> for a range.
\<close>

record rpc_cycle =
  rpc_latestLedger :: "error + int"
  rpc_fetchEvents :: "int \<Rightarrow> int \<Rightarrow> nat \<Rightarrow> fetch_outcome"

text \<open>The \<^verbatim>\<open>catch\<close> and \<^verbatim>\<open>finally\<close> of \<^verbatim>\<open>pollEvents\<close>.\<close>

definition poll_failed :: "indexer \<Rightarrow> indexer" where
  "poll_failed s = s\<lparr> tracker := logError ''Poll cycle failed'' (tracker s), isRunning := False \<rparr>"

definition pollEvents :: "handler_service \<Rightarrow> indexer_config \<Rightarrow> rpc_cycle \<Rightarrow> indexer \<Rightarrow> indexer" where
  "pollEvents eventHandler cfg rpc s =
     (if isRunning s then s
      else
        (let startLedger =
               (case getLastCursor (tracker_cfg cfg) (tracker s) of
                  Some cursor \<Rightarrow> lastLedgerSeq cursor + 1
                | None \<Rightarrow> 1)
         in case rpc_latestLedger rpc of
              Inl e \<Rightarrow> poll_failed s
            | Inr latestLedger \<Rightarrow>
                if startLedger > latestLedger then s\<lparr> isRunning := False \<rparr>
                else
                  (case fst (fetchEventsWithRetry (rpc_fetchEvents rpc startLedger latestLedger) cfg) of
                     Inl e \<Rightarrow> poll_failed s
                   | Inr events \<Rightarrow>
                       if events = [] then
                         (case updateCursor (tracker_cfg cfg) latestLedger None (tracker s) of
                            Inl e \<Rightarrow> poll_failed s
                          | Inr tr \<Rightarrow> s\<lparr> tracker := tr, isRunning := False \<rparr>)
                       else
                         (let (processedCount, errorCount, s1) =
                                processBatch eventHandler cfg events (0, 0, s)
                          in case updateCursor (tracker_cfg cfg) latestLedger None (tracker s1) of
                               Inl e \<Rightarrow> poll_failed s1
                             | Inr tr \<Rightarrow>
                                 s1\<lparr> tracker :=
                                       logProgress latestLedger latestLedger (int processedCount) tr,
                                     isRunning := False \<rparr>))))"

section \<open>Concrete inputs\<close>

text \<open>
  A configuration with the default threshold, and a store of the test network whose cursor
  stands at ledger 100 with hash \<open>H1\<close>; one of its dedup rows belongs to another network.
\<close>

definition ex_cfg :: tracker_config where
  "ex_cfg = \<lparr> network = ''testnet'', reorgDepthThreshold = 5, INDEXER_START_LEDGER = None \<rparr>"

definition ex_row :: "string \<Rightarrow> string \<Rightarrow> int \<Rightarrow> processed_row" where
  "ex_row eid net seq =
     \<lparr> pe_eventId = eid, pe_network = net, pe_ledgerSeq = seq, pe_contractId = ''C1'',
       pe_eventType = ''contrib'', pe_transactionHash = ''tx'' \<rparr>"

definition ex_store :: tracker_store where
  "ex_store =
     \<lparr> ledgerCursor =
         [\<lparr> cur_network = ''testnet'', cur_lastLedgerSeq = 100, cur_lastLedgerHash = Some ''H1'' \<rparr>],
       processedEvent =
         [ex_row ''e95'' ''testnet'' 95, ex_row ''e96'' ''testnet'' 96,
          ex_row ''e97'' ''testnet'' 97, ex_row ''m99'' ''mainnet'' 99,
          ex_row ''e100'' ''testnet'' 100],
       indexerLog = [] \<rparr>"

definition ex_empty :: tracker_store where
  "ex_empty = \<lparr> ledgerCursor = [], processedEvent = [], indexerLog = [] \<rparr>"

text \<open>A conversion of texts to numbers that knows two of them.\<close>

definition ex_toNumber :: "string \<Rightarrow> int option" where
  "ex_toNumber s = (if s = ''0'' then Some 0 else if s = ''7'' then Some 7 else None)"

definition ex_reorg :: ReorgDetectionResult where
  "ex_reorg = \<lparr> hasReorg = True, reorgDepth = 1, lastValidLedger = 99, newLatestLedger = 100 \<rparr>"

text \<open>A raw event with a given id and topic, and an indexer with three attempts, one second apart.\<close>

definition ex_event :: "string \<Rightarrow> string list \<Rightarrow> SorobanEvent" where
  "ex_event eid tp =
     \<lparr> ev_type = ''contract'', ev_ledger = 60, ev_ledgerClosedAt = ''2026-01-01T00:00:00Z'',
       ev_contractId = ''C1'', ev_id = eid, ev_pagingToken = eid, ev_topic = tp,
       ev_value = ''AAAA'', ev_inSuccessfulContractCall = True, ev_txHash = ''tx1'' \<rparr>"

definition ex_icfg :: indexer_config where
  "ex_icfg = \<lparr> tracker_cfg = ex_cfg, retryAttempts = 3, retryDelayMs = 1000 \<rparr>"

text \<open>
  A reading of integer literals that knows two of them; a domain with project 42, two of its
  milestones and one milestone of another project; event data that name project 42.
\<close>

definition ex_bigint :: "string \<Rightarrow> int option" where
  "ex_bigint s = (if s = ''100'' then Some 100 else if s = ''250'' then Some 250 else None)"

definition ex_domain :: domain_store where
  "ex_domain =
     \<lparr> users = [],
       projects =
         [\<lparr> prj_id = 1, prj_contractId = ''42'', creatorId = 0, title = ''Project 42'',
            category = ''uncategorized'', goal = 1000,
            prj_deadline = DateOfMillis 1800000000000, prj_status = ''ACTIVE'',
            currentFunds = None \<rparr>],
       contributions = [],
       milestones =
         [\<lparr> ms_projectId = 1, ms_ordinal = 0, ms_status = ''PENDING'', completionDate = None \<rparr>,
          \<lparr> ms_projectId = 1, ms_ordinal = 1, ms_status = ''PENDING'', completionDate = None \<rparr>,
          \<lparr> ms_projectId = 2, ms_ordinal = 0, ms_status = ''PENDING'', completionDate = None \<rparr>],
       nextId = 3 \<rparr>"

definition ex_data :: event_data where
  "ex_data =
     \<lparr> rawXdr = Some ''AAAA'', data_eventType = None, projectId = Some 42, creator = None,
       fundingGoal = None, deadline = None, token = None, contributor = None, amount = None,
       totalRaised = None, milestoneId = None \<rparr>"

definition ex_parsed :: "ContractEventType \<Rightarrow> event_data \<Rightarrow> ParsedContractEvent" where
  "ex_parsed t d =
     \<lparr> eventId = ''e1'', ledgerSeq = 60, ledgerClosedAt = DateOfString ''2026-01-01T00:00:00Z'',
       contractId = ''C1'', eventType = t, transactionHash = ''tx1'', data = d,
       inSuccessfulContractCall = True \<rparr>"

text \<open>
  An idle indexer whose cursor stands at ledger 49, with one dedup row of its own network
  and one of another; an RPC whose latest ledger is 80 and whose every fetch has the given
  outcome; a handler service that writes a user row named after the event it is given; a
  handler service that fails on the event \<open>bad\<close> and succeeds on any other.
\<close>

definition ex_indexer :: indexer where
  "ex_indexer =
     \<lparr> tracker =
         \<lparr> ledgerCursor =
             [\<lparr> cur_network = ''testnet'', cur_lastLedgerSeq = 49, cur_lastLedgerHash = Some ''H49'' \<rparr>],
           processedEvent = [ex_row ''e49'' ''testnet'' 49, ex_row ''m50'' ''mainnet'' 50],
           indexerLog = [] \<rparr>,
       domain = ex_domain, isRunning = False \<rparr>"

definition ex_rpc :: "fetch_outcome \<Rightarrow> rpc_cycle" where
  "ex_rpc outcome = \<lparr> rpc_latestLedger = Inr 80, rpc_fetchEvents = (\<lambda>startLedger endLedger k. outcome) \<rparr>"


definition ex_failing_service :: handler_service where
  "ex_failing_service parsed db =
     (if eventId parsed = ''bad'' then (Inl (Error ''handler failed''), db) else (Inr True, db))"

section \<open>Properties\<close>

subsection \<open>Reorganisation detection\<close>

lemma getLastCursor_hash:
  "getLastCursor cfg st = Some c \<Longrightarrow> or_absent (lastLedgerHash c) = lastLedgerHash c"
  by (auto simp: getLastCursor_def or_absent_def split: option.splits if_splits)

text \<open>
  Claim C1. \<^verbatim>\<open>detectReorg\<close> classifies a remote ledger against the stored cursor,
  the cases read in the order of the code. (a) With no cursor, or a cursor without a hash,
  no reorganisation is reported and the last valid ledger is the remote sequence minus one.
  (b) With a cursor that has a hash, the same sequence and a different hash give a
  reorganisation of depth 1 whose last valid ledger is the remote sequence minus one.
  (c) A remote sequence strictly greater than the cursor's reports no reorganisation.
  (d) With a cursor that has a hash, a remote sequence strictly less than the cursor's
  reports a reorganisation of depth cursor sequence minus remote sequence.
\<close>

theorem detectReorg_classification:
  "(getLastCursor cfg st = None \<or>
      (\<exists>c. getLastCursor cfg st = Some c \<and> lastLedgerHash c = None)
    \<longrightarrow> \<not> hasReorg (detectReorg cfg st remote)
        \<and> lastValidLedger (detectReorg cfg st remote) = sequence remote - 1)
   \<and> (\<forall>c h. getLastCursor cfg st = Some c \<and> lastLedgerHash c = Some h
          \<and> sequence remote = lastLedgerSeq c \<and> hash remote \<noteq> h
    \<longrightarrow> hasReorg (detectReorg cfg st remote)
        \<and> reorgDepth (detectReorg cfg st remote) = 1
        \<and> lastValidLedger (detectReorg cfg st remote) = sequence remote - 1)
   \<and> (\<forall>c. getLastCursor cfg st = Some c \<and> sequence remote > lastLedgerSeq c
    \<longrightarrow> \<not> hasReorg (detectReorg cfg st remote))
   \<and> (\<forall>c h. getLastCursor cfg st = Some c \<and> lastLedgerHash c = Some h
          \<and> sequence remote < lastLedgerSeq c
    \<longrightarrow> hasReorg (detectReorg cfg st remote)
        \<and> reorgDepth (detectReorg cfg st remote) = lastLedgerSeq c - sequence remote)"
proof (cases "getLastCursor cfg st")
  case None
  then show ?thesis by (simp add: detectReorg_def)
next
  case (Some c)
  note hash_kept = getLastCursor_hash [OF Some]
  show ?thesis
  proof (cases "lastLedgerHash c")
    case None
    with Some hash_kept show ?thesis by (simp add: detectReorg_def)
  next
    case (Some h)
    with \<open>getLastCursor cfg st = Some c\<close> hash_kept show ?thesis
      by (simp add: detectReorg_def Let_def)
  qed
qed

theorem detectReorg_classification_witness:
  "\<not> hasReorg (detectReorg ex_cfg ex_empty \<lparr> sequence = 100, hash = ''H2'', prevHash = ''H0'' \<rparr>)
   \<and> lastValidLedger
        (detectReorg ex_cfg ex_empty \<lparr> sequence = 100, hash = ''H2'', prevHash = ''H0'' \<rparr>) = 99
   \<and> hasReorg (detectReorg ex_cfg ex_store \<lparr> sequence = 100, hash = ''H2'', prevHash = ''H0'' \<rparr>)
   \<and> reorgDepth (detectReorg ex_cfg ex_store \<lparr> sequence = 100, hash = ''H2'', prevHash = ''H0'' \<rparr>) = 1
   \<and> lastValidLedger
        (detectReorg ex_cfg ex_store \<lparr> sequence = 100, hash = ''H2'', prevHash = ''H0'' \<rparr>) = 99
   \<and> \<not> hasReorg (detectReorg ex_cfg ex_store \<lparr> sequence = 101, hash = ''H3'', prevHash = ''H1'' \<rparr>)
   \<and> hasReorg (detectReorg ex_cfg ex_store \<lparr> sequence = 98, hash = ''H8'', prevHash = ''H7'' \<rparr>)
   \<and> reorgDepth (detectReorg ex_cfg ex_store \<lparr> sequence = 98, hash = ''H8'', prevHash = ''H7'' \<rparr>) = 2"
proof -
  have none: "getLastCursor ex_cfg ex_empty = None"
    by (simp add: getLastCursor_def ex_empty_def)
  have cur: "getLastCursor ex_cfg ex_store
      = Some \<lparr> network_of = ''testnet'', lastLedgerSeq = 100, lastLedgerHash = Some ''H1'' \<rparr>"
    by (simp add: getLastCursor_def ex_cfg_def ex_store_def or_absent_def)
  from detectReorg_classification
    [of ex_cfg ex_empty "\<lparr> sequence = 100, hash = ''H2'', prevHash = ''H0'' \<rparr>"] none
  have a: "\<not> hasReorg (detectReorg ex_cfg ex_empty \<lparr> sequence = 100, hash = ''H2'', prevHash = ''H0'' \<rparr>)"
    "lastValidLedger
        (detectReorg ex_cfg ex_empty \<lparr> sequence = 100, hash = ''H2'', prevHash = ''H0'' \<rparr>) = 99"
    by simp_all
  from detectReorg_classification
    [of ex_cfg ex_store "\<lparr> sequence = 100, hash = ''H2'', prevHash = ''H0'' \<rparr>"] cur
  have b: "hasReorg (detectReorg ex_cfg ex_store \<lparr> sequence = 100, hash = ''H2'', prevHash = ''H0'' \<rparr>)"
    "reorgDepth (detectReorg ex_cfg ex_store \<lparr> sequence = 100, hash = ''H2'', prevHash = ''H0'' \<rparr>) = 1"
    "lastValidLedger
        (detectReorg ex_cfg ex_store \<lparr> sequence = 100, hash = ''H2'', prevHash = ''H0'' \<rparr>) = 99"
    by simp_all
  from detectReorg_classification
    [of ex_cfg ex_store "\<lparr> sequence = 101, hash = ''H3'', prevHash = ''H1'' \<rparr>"] cur
  have c: "\<not> hasReorg (detectReorg ex_cfg ex_store \<lparr> sequence = 101, hash = ''H3'', prevHash = ''H1'' \<rparr>)"
    by simp
  from detectReorg_classification
    [of ex_cfg ex_store "\<lparr> sequence = 98, hash = ''H8'', prevHash = ''H7'' \<rparr>"] cur
  have d: "hasReorg (detectReorg ex_cfg ex_store \<lparr> sequence = 98, hash = ''H8'', prevHash = ''H7'' \<rparr>)"
    "reorgDepth (detectReorg ex_cfg ex_store \<lparr> sequence = 98, hash = ''H8'', prevHash = ''H7'' \<rparr>) = 2"
    by simp_all
  from a b c d show ?thesis by blast
qed

subsection \<open>Cursor reads after cursor writes\<close>

lemma find_rewritten:
  assumes "\<And>r. cur_network (f r) = cur_network r"
  shows "find (\<lambda>r. cur_network r = n) (map (\<lambda>r. if cur_network r = n then f r else r) xs)
         = map_option f (find (\<lambda>r. cur_network r = n) xs)"
  using assms by (induction xs) auto

lemma find_appended:
  "find P (xs @ [x]) = (case find P xs of Some y \<Rightarrow> Some y | None \<Rightarrow> if P x then Some x else None)"
  by (induction xs) auto

lemma list_ex_find: "list_ex P xs \<longleftrightarrow> find P xs \<noteq> None"
  by (induction xs) auto

lemma getLastCursor_exists:
  "getLastCursor cfg st \<noteq> None \<longleftrightarrow> list_ex (\<lambda>r. cur_network r = network cfg) (ledgerCursor st)"
  by (simp add: getLastCursor_def list_ex_find split: option.splits)

lemma getLastCursor_updateCursor:
  "updateCursor cfg k h st = Inr st' \<Longrightarrow>
   getLastCursor cfg st' =
     Some \<lparr> network_of = network cfg, lastLedgerSeq = k, lastLedgerHash = or_absent h \<rparr>"
  by (auto simp: updateCursor_def getLastCursor_def find_rewritten list_ex_find or_absent_def
      split: if_splits option.splits dest: find_Some_iff[THEN iffD1])

lemma getLastCursor_initializeCursor:
  "getLastCursor cfg (initializeCursor cfg k st) =
     Some \<lparr> network_of = network cfg, lastLedgerSeq = k, lastLedgerHash = None \<rparr>"
  by (auto simp: initializeCursor_def getLastCursor_def find_rewritten find_appended list_ex_find
      or_absent_def split: if_splits option.splits dest: find_Some_iff[THEN iffD1])

subsection \<open>Rollback\<close>

text \<open>
  Every result of \<^verbatim>\<open>detectReorg\<close> that reports a reorganisation comes from a store
  with a cursor, so the rollback of a detected reorganisation always has a cursor to reset.
\<close>

lemma detectReorg_needs_cursor:
  "hasReorg (detectReorg cfg st remote) \<Longrightarrow> getLastCursor cfg st \<noteq> None"
  by (auto simp: detectReorg_def split: option.splits)

lemma handleReorg_with_cursor:
  assumes "hasReorg r" and "getLastCursor cfg st \<noteq> None"
  shows "rolled_back cfg r st (handleReorg cfg r st)"
proof -
  define safe where "safe = spec_safeLedger (reorgDepth r) (lastValidLedger r) (reorgDepthThreshold cfg)"
  define st1 where "st1 = st\<lparr> processedEvent :=
      filter (\<lambda>e. \<not> (pe_network e = network cfg \<and> pe_ledgerSeq e > safe)) (processedEvent st) \<rparr>"
  from assms(2) have "list_ex (\<lambda>r. cur_network r = network cfg) (ledgerCursor st1)"
    using getLastCursor_exists [of cfg st] by (simp add: st1_def)
  then obtain st2 where upd: "updateCursor cfg safe None st1 = Inr st2"
    by (simp add: updateCursor_def)
  from assms(1) have "handleReorg cfg r st =
      (case updateCursor cfg safe None st1 of Inl e \<Rightarrow> (Inl e, st1) | Inr st2 \<Rightarrow> (Inr safe, st2))"
    unfolding handleReorg_def Let_def safe_def st1_def spec_safeLedger_def by simp
  with upd have run: "handleReorg cfg r st = (Inr safe, st2)"
    by simp
  from upd have tables: "processedEvent st2 = processedEvent st1" "indexerLog st2 = indexerLog st1"
    by (auto simp: updateCursor_def split: if_splits)
  have "map_option lastLedgerSeq (getLastCursor cfg st2) = Some safe"
    using getLastCursor_updateCursor [OF upd] by simp
  with run tables show ?thesis
    unfolding rolled_back_def safe_def [symmetric] by (simp add: st1_def)
qed

text \<open>
  Claim C2. \<^verbatim>\<open>handleReorg\<close> leaves the store as it is when the result reports no
  reorganisation. When the result reports one and the network has a cursor to reset, it
  returns the safe ledger \<open>max 0 (lastValidLedger - min (reorgDepth + 2) threshold)\<close>, the
  dedup rows it leaves are exactly the rows that are not both of the network and beyond the
  safe ledger, the cursor then reads the safe ledger, and the log is untouched. For a
  result of \<^verbatim>\<open>detectReorg\<close> on the same store this holds with no further condition. At
  depth 1, last valid ledger 99 and threshold 5 the safe ledger is 96.
\<close>

theorem handleReorg_rollback:
  "(\<not> hasReorg r \<longrightarrow> snd (handleReorg cfg r st) = st)
   \<and> (hasReorg r \<and> getLastCursor cfg st \<noteq> None \<longrightarrow> rolled_back cfg r st (handleReorg cfg r st))
   \<and> (hasReorg (detectReorg cfg st remote) \<longrightarrow>
        rolled_back cfg (detectReorg cfg st remote) st
          (handleReorg cfg (detectReorg cfg st remote) st))
   \<and> spec_safeLedger 1 99 5 = 96"
proof (intro conjI impI)
  assume "\<not> hasReorg r"
  then show "snd (handleReorg cfg r st) = st" by (simp add: handleReorg_def)
next
  assume "hasReorg r \<and> getLastCursor cfg st \<noteq> None"
  then show "rolled_back cfg r st (handleReorg cfg r st)"
    using handleReorg_with_cursor [of r cfg st] by blast
next
  assume detected: "hasReorg (detectReorg cfg st remote)"
  from detectReorg_needs_cursor [OF this] detected
  show "rolled_back cfg (detectReorg cfg st remote) st
          (handleReorg cfg (detectReorg cfg st remote) st)"
    by (rule handleReorg_with_cursor [rotated])
next
  show "spec_safeLedger 1 99 5 = 96" by (simp add: spec_safeLedger_def)
qed

theorem handleReorg_rollback_witness:
  "detectReorg ex_cfg ex_store \<lparr> sequence = 100, hash = ''H2'', prevHash = ''H0'' \<rparr> = ex_reorg
   \<and> fst (handleReorg ex_cfg ex_reorg ex_store) = Inr 96
   \<and> processedEvent (snd (handleReorg ex_cfg ex_reorg ex_store))
       = [ex_row ''e95'' ''testnet'' 95, ex_row ''e96'' ''testnet'' 96, ex_row ''m99'' ''mainnet'' 99]
   \<and> map_option lastLedgerSeq (getLastCursor ex_cfg (snd (handleReorg ex_cfg ex_reorg ex_store))) = Some 96
   \<and> snd (handleReorg ex_cfg (ex_reorg\<lparr> hasReorg := False \<rparr>) ex_store) = ex_store"
proof -
  have detected: "detectReorg ex_cfg ex_store \<lparr> sequence = 100, hash = ''H2'', prevHash = ''H0'' \<rparr>
      = ex_reorg"
    by (simp add: detectReorg_def getLastCursor_def or_absent_def ex_cfg_def ex_store_def ex_reorg_def)
  have reorg: "hasReorg ex_reorg" and quiet: "\<not> hasReorg (ex_reorg\<lparr> hasReorg := False \<rparr>)"
    by (simp_all add: ex_reorg_def)
  have safe: "spec_safeLedger (reorgDepth ex_reorg) (lastValidLedger ex_reorg)
      (reorgDepthThreshold ex_cfg) = 96"
    by (simp add: spec_safeLedger_def ex_reorg_def ex_cfg_def)
  from handleReorg_rollback
    [of "ex_reorg\<lparr> hasReorg := False \<rparr>" ex_cfg ex_store
      "\<lparr> sequence = 100, hash = ''H2'', prevHash = ''H0'' \<rparr>"] quiet reorg
  have "snd (handleReorg ex_cfg (ex_reorg\<lparr> hasReorg := False \<rparr>) ex_store) = ex_store"
    and "rolled_back ex_cfg ex_reorg ex_store (handleReorg ex_cfg ex_reorg ex_store)"
    by (simp_all only: detected simp_thms)
  with detected safe show ?thesis
    by (simp add: rolled_back_def ex_cfg_def ex_store_def ex_row_def)
qed

subsection \<open>Start ledger\<close>

text \<open>
  Claim C4. With a cursor, \<^verbatim>\<open>getStartLedger\<close> returns its sequence plus one and writes
  nothing, whatever start ledger is configured. With no cursor and a configured start
  ledger (a text that is not empty and converts to an integer, \<^verbatim>\<open>'0'\<close> as any other),
  it initialises the cursor one below the configured ledger and returns the configured
  value. With no cursor and no configured start ledger (the variable is not set, or set to
  the empty text), it initialises the cursor one below the remote tip and returns the tip.
\<close>

theorem getStartLedger_resume:
  "(\<forall>c. getLastCursor cfg st = Some c \<longrightarrow>
        getStartLedger toNumber cfg latest st = (Inr (JSNumber (lastLedgerSeq c + 1)), st))
   \<and> (\<forall>s n. getLastCursor cfg st = None \<and> INDEXER_START_LEDGER cfg = Some s \<and> s \<noteq> []
          \<and> toNumber s = Some n \<longrightarrow>
         fst (getStartLedger toNumber cfg latest st) = Inr (JSString s)
       \<and> getLastCursor cfg (snd (getStartLedger toNumber cfg latest st))
           = Some \<lparr> network_of = network cfg, lastLedgerSeq = n - 1, lastLedgerHash = None \<rparr>)
   \<and> (getLastCursor cfg st = None
        \<and> (INDEXER_START_LEDGER cfg = None \<or> INDEXER_START_LEDGER cfg = Some []) \<longrightarrow>
         fst (getStartLedger toNumber cfg latest st) = Inr (JSNumber latest)
       \<and> getLastCursor cfg (snd (getStartLedger toNumber cfg latest st))
           = Some \<lparr> network_of = network cfg, lastLedgerSeq = latest - 1, lastLedgerHash = None \<rparr>)"
  by (auto simp: getStartLedger_def getLastCursor_initializeCursor or_absent_def)

theorem getStartLedger_resume_witness:
  "getStartLedger ex_toNumber (ex_cfg\<lparr> INDEXER_START_LEDGER := Some ''7'' \<rparr>) 500 ex_store
     = (Inr (JSNumber 101), ex_store)
   \<and> fst (getStartLedger ex_toNumber (ex_cfg\<lparr> INDEXER_START_LEDGER := Some ''7'' \<rparr>) 500 ex_empty)
       = Inr (JSString ''7'')
   \<and> map_option lastLedgerSeq
        (getLastCursor (ex_cfg\<lparr> INDEXER_START_LEDGER := Some ''7'' \<rparr>)
           (snd (getStartLedger ex_toNumber (ex_cfg\<lparr> INDEXER_START_LEDGER := Some ''7'' \<rparr>)
              500 ex_empty))) = Some 6
   \<and> fst (getStartLedger ex_toNumber (ex_cfg\<lparr> INDEXER_START_LEDGER := Some ''0'' \<rparr>) 500 ex_empty)
       = Inr (JSString ''0'')
   \<and> map_option lastLedgerSeq
        (getLastCursor (ex_cfg\<lparr> INDEXER_START_LEDGER := Some ''0'' \<rparr>)
           (snd (getStartLedger ex_toNumber (ex_cfg\<lparr> INDEXER_START_LEDGER := Some ''0'' \<rparr>)
              500 ex_empty))) = Some (- 1)
   \<and> fst (getStartLedger ex_toNumber ex_cfg 500 ex_empty) = Inr (JSNumber 500)
   \<and> map_option lastLedgerSeq
        (getLastCursor ex_cfg (snd (getStartLedger ex_toNumber ex_cfg 500 ex_empty))) = Some 499"
proof -
  have cur: "getLastCursor (ex_cfg\<lparr> INDEXER_START_LEDGER := v \<rparr>) ex_store
      = Some \<lparr> network_of = ''testnet'', lastLedgerSeq = 100, lastLedgerHash = Some ''H1'' \<rparr>"
    and none: "getLastCursor (ex_cfg\<lparr> INDEXER_START_LEDGER := v \<rparr>) ex_empty = None" for v
    by (simp_all add: getLastCursor_def ex_cfg_def ex_store_def ex_empty_def or_absent_def)
  have none': "getLastCursor ex_cfg ex_empty = None"
    by (simp add: getLastCursor_def ex_empty_def)
  have unset: "INDEXER_START_LEDGER ex_cfg = None"
    by (simp add: ex_cfg_def)
  have reads: "ex_toNumber ''7'' = Some 7" "ex_toNumber ''0'' = Some 0"
    by (simp_all add: ex_toNumber_def)
  from getStartLedger_resume [of "ex_cfg\<lparr> INDEXER_START_LEDGER := Some ''7'' \<rparr>" ex_store
      ex_toNumber 500] cur
  have one: "getStartLedger ex_toNumber (ex_cfg\<lparr> INDEXER_START_LEDGER := Some ''7'' \<rparr>) 500 ex_store
     = (Inr (JSNumber 101), ex_store)"
    by simp
  from getStartLedger_resume [of "ex_cfg\<lparr> INDEXER_START_LEDGER := Some ''7'' \<rparr>" ex_empty
      ex_toNumber 500] none reads
  have two: "fst (getStartLedger ex_toNumber (ex_cfg\<lparr> INDEXER_START_LEDGER := Some ''7'' \<rparr>) 500
        ex_empty) = Inr (JSString ''7'')"
    "map_option lastLedgerSeq
        (getLastCursor (ex_cfg\<lparr> INDEXER_START_LEDGER := Some ''7'' \<rparr>)
           (snd (getStartLedger ex_toNumber (ex_cfg\<lparr> INDEXER_START_LEDGER := Some ''7'' \<rparr>)
              500 ex_empty))) = Some 6"
    by simp_all
  from getStartLedger_resume [of "ex_cfg\<lparr> INDEXER_START_LEDGER := Some ''0'' \<rparr>" ex_empty
      ex_toNumber 500] none reads
  have three: "fst (getStartLedger ex_toNumber (ex_cfg\<lparr> INDEXER_START_LEDGER := Some ''0'' \<rparr>) 500
        ex_empty) = Inr (JSString ''0'')"
    "map_option lastLedgerSeq
        (getLastCursor (ex_cfg\<lparr> INDEXER_START_LEDGER := Some ''0'' \<rparr>)
           (snd (getStartLedger ex_toNumber (ex_cfg\<lparr> INDEXER_START_LEDGER := Some ''0'' \<rparr>)
              500 ex_empty))) = Some (- 1)"
    by simp_all
  from getStartLedger_resume [of ex_cfg ex_empty ex_toNumber 500] none' unset
  have four: "fst (getStartLedger ex_toNumber ex_cfg 500 ex_empty) = Inr (JSNumber 500)"
    "map_option lastLedgerSeq
        (getLastCursor ex_cfg (snd (getStartLedger ex_toNumber ex_cfg 500 ex_empty))) = Some 499"
    by simp_all
  from one two three four show ?thesis by blast
qed

text \<open>
  Whatever the store was, it has a cursor after a \<^verbatim>\<open>getStartLedger\<close> that returns. The
  indexer calls it when it starts, and does not start when it throws.
\<close>

lemma getStartLedger_establishes_cursor:
  "\<not> isl (fst (getStartLedger toNumber cfg latest st)) \<Longrightarrow>
   getLastCursor cfg (snd (getStartLedger toNumber cfg latest st)) \<noteq> None"
  by (auto simp: getStartLedger_def getLastCursor_initializeCursor split: option.splits)

subsection \<open>Dedup rows\<close>

lemma one_row_per_id:
  "distinct (map f xs) \<Longrightarrow> list_ex (\<lambda>r. f r = k) xs \<Longrightarrow> length (filter (\<lambda>r. f r = k) xs) = 1"
proof (induction xs)
  case Nil
  then show ?case by simp
next
  case (Cons x xs)
  show ?case
  proof (cases "f x = k")
    case True
    with Cons.prems have "k \<notin> f ` set xs"
      by simp
    then have "\<forall>r\<in>set xs. f r \<noteq> k"
      by blast
    then have "filter (\<lambda>r. f r = k) xs = []"
      by (simp add: filter_empty_conv)
    with True show ?thesis by simp
  next
    case False
    with Cons show ?thesis by simp
  qed
qed

lemma no_row_for_id:
  "\<not> list_ex (\<lambda>r. f r = k) xs \<Longrightarrow> filter (\<lambda>r. f r = k) xs = []"
  by (auto simp: filter_empty_conv list_ex_iff)

text \<open>
  Claim C5. On a dedup table whose event ids are unique, marking an event a second time,
  with whatever other arguments, leaves the store of the first mark, and that store holds
  exactly one row with the event id.
\<close>

theorem markEventProcessed_idempotent:
  assumes "distinct (map pe_eventId (processedEvent st))"
  shows "markEventProcessed cfg e l' c' t' h' (markEventProcessed cfg e l c t h st)
           = markEventProcessed cfg e l c t h st
         \<and> length (filter (\<lambda>r. pe_eventId r = e)
             (processedEvent
                (markEventProcessed cfg e l' c' t' h' (markEventProcessed cfg e l c t h st)))) = 1"
proof -
  have again: "markEventProcessed cfg e l' c' t' h' (markEventProcessed cfg e l c t h st)
           = markEventProcessed cfg e l c t h st"
    by (simp add: markEventProcessed_def)
  have "length (filter (\<lambda>r. pe_eventId r = e) (processedEvent (markEventProcessed cfg e l c t h st))) = 1"
  proof (cases "list_ex (\<lambda>r. pe_eventId r = e) (processedEvent st)")
    case True
    with assms show ?thesis by (simp add: markEventProcessed_def one_row_per_id)
  next
    case False
    then show ?thesis by (simp add: markEventProcessed_def no_row_for_id)
  qed
  with again show ?thesis by simp
qed

theorem markEventProcessed_idempotent_witness:
  "distinct (map pe_eventId (processedEvent ex_store))
   \<and> markEventProcessed ex_cfg ''e101'' 102 ''C2'' ''contrib'' ''tx2''
        (markEventProcessed ex_cfg ''e101'' 101 ''C1'' ''contrib'' ''tx1'' ex_store)
      = markEventProcessed ex_cfg ''e101'' 101 ''C1'' ''contrib'' ''tx1'' ex_store
   \<and> length (filter (\<lambda>r. pe_eventId r = ''e101'')
        (processedEvent (markEventProcessed ex_cfg ''e101'' 102 ''C2'' ''contrib'' ''tx2''
           (markEventProcessed ex_cfg ''e101'' 101 ''C1'' ''contrib'' ''tx1'' ex_store)))) = 1"
proof -
  have d: "distinct (map pe_eventId (processedEvent ex_store))"
    by (simp add: ex_store_def ex_row_def)
  from markEventProcessed_idempotent [OF d, of ex_cfg "''e101''" 102 "''C2''" "''contrib''" "''tx2''"
      101 "''C1''" "''contrib''" "''tx1''"] d
  show ?thesis by blast
qed

subsection \<open>Decoding\<close>

lemma find_equal: "find (\<lambda>t. t = s) xs = (if s \<in> set xs then Some s else None)"
  by (induction xs) auto

lemma no_empty_tag: "[] \<notin> set ContractEventType_values"
  by (simp add: ContractEventType_values_def)

lemma parseEventType_iff:
  "parseEventType s = (if s \<in> set ContractEventType_values then Some s else None)"
  using no_empty_tag by (auto simp: parseEventType_def find_equal)

text \<open>
  Claim C10. \<^verbatim>\<open>parseEvent\<close> is a total function with no error result. It returns
  nothing exactly when the topic is empty or its first symbol is not one of the values of
  the event-type enumeration. Otherwise the parsed event has that symbol as its type and
  its data are those of \<^verbatim>\<open>parseEventData\<close>, which always carry the raw payload.
\<close>

theorem parseEvent_total:
  "(parseEvent ev = None \<longleftrightarrow>
      ev_topic ev = [] \<or> hd (ev_topic ev) \<notin> set ContractEventType_values)
   \<and> (\<forall>p. parseEvent ev = Some p \<longrightarrow>
         eventType p = hd (ev_topic ev)
       \<and> rawXdr (data p) = Some (ev_value ev)
       \<and> data p = parseEventData (ev_value ev) (eventType p))
   \<and> rawXdr (parseEventData v t) = Some v"
proof (cases "ev_topic ev")
  case Nil
  then show ?thesis by (simp add: parseEvent_def parseEventData_def)
next
  case (Cons s rest)
  show ?thesis
  proof (cases "s \<in> set ContractEventType_values")
    case True
    with no_empty_tag have "s \<noteq> []" by auto
    with True Cons show ?thesis
      by (auto simp: parseEvent_def parseEventType_iff parseEventData_def)
  next
    case False
    with Cons show ?thesis
      by (simp add: parseEvent_def parseEventType_iff parseEventData_def)
  qed
qed

theorem parseEvent_total_witness:
  "parseEvent (ex_event ''e1'' []) = None
   \<and> parseEvent (ex_event ''e1'' [''transfer'']) = None
   \<and> map_option eventType (parseEvent (ex_event ''e1'' [''contrib'', ''x''])) = Some ''contrib''
   \<and> map_option (rawXdr \<circ> data) (parseEvent (ex_event ''e1'' [''contrib'', ''x''])) = Some (Some ''AAAA'')"
proof -
  have a: "parseEvent (ex_event ''e1'' []) = None"
    using parseEvent_total [of "ex_event ''e1'' []"] by (simp add: ex_event_def)
  have b: "parseEvent (ex_event ''e1'' [''transfer'']) = None"
    using parseEvent_total [of "ex_event ''e1'' [''transfer'']"]
    by (simp add: ex_event_def ContractEventType_values_def)
  have "parseEvent (ex_event ''e1'' [''contrib'', ''x'']) \<noteq> None"
    using parseEvent_total [of "ex_event ''e1'' [''contrib'', ''x'']"]
    by (simp add: ex_event_def ContractEventType_values_def)
  then obtain p where p: "parseEvent (ex_event ''e1'' [''contrib'', ''x'']) = Some p"
    by auto
  with parseEvent_total [of "ex_event ''e1'' [''contrib'', ''x'']"]
  have "eventType p = ''contrib''" "rawXdr (data p) = Some ''AAAA''"
    by (simp_all add: ex_event_def)
  with a b p show ?thesis by simp
qed


subsection \<open>Retry and backoff\<close>

lemma loop_calls_lower:
  "fetchCalls tr \<le> fetchCalls (snd (fetchEventsWithRetry_loop f cfg a le tr))"
proof (induction f cfg a le tr rule: fetchEventsWithRetry_loop.induct)
  case (1 f cfg a le tr)
  show ?case
    using "1.IH" 
    by (subst fetchEventsWithRetry_loop.simps) (auto split: sum.splits dest: le_trans[rotated])
qed

lemma loop_calls_upper:
  "int (fetchCalls (snd (fetchEventsWithRetry_loop f cfg a le tr)))
     \<le> int (fetchCalls tr) + max 0 (retryAttempts cfg + 1 - int a)"
proof (induction f cfg a le tr rule: fetchEventsWithRetry_loop.induct)
  case (1 f cfg a le tr)
  show ?case
  proof (cases "int a \<le> retryAttempts cfg")
    case False
    then show ?thesis by (subst fetchEventsWithRetry_loop.simps) simp
  next
    case True
    show ?thesis
    proof (cases "f a")
      case (Inr evs)
      with True show ?thesis by (subst fetchEventsWithRetry_loop.simps) simp
    next
      case (Inl m)
      show ?thesis
      proof (cases "int a < retryAttempts cfg")
        case lt: True
        from "1.IH"(1) [OF True Inl lt] True Inl lt show ?thesis
          by (subst fetchEventsWithRetry_loop.simps) simp
      next
        case ge: False
        from "1.IH"(2) [OF True Inl ge] True Inl ge show ?thesis
          by (subst fetchEventsWithRetry_loop.simps) simp
      qed
    qed
  qed
qed

lemma loop_calls_step:
  "int a \<le> retryAttempts cfg \<Longrightarrow>
   fetchCalls tr + 1 \<le> fetchCalls (snd (fetchEventsWithRetry_loop f cfg a le tr))"
proof -
  assume le: "int a \<le> retryAttempts cfg"
  show ?thesis
  proof (cases "f a")
    case (Inr evs)
    with le show ?thesis by (subst fetchEventsWithRetry_loop.simps) simp
  next
    case (Inl m)
    show ?thesis
    proof (cases "int a < retryAttempts cfg")
      case True
      with le Inl
        loop_calls_lower [of "tr\<lparr> fetchCalls := fetchCalls tr + 1,
          sleeps := sleeps tr @ [retryDelayMs cfg * 2 ^ (a - 1)] \<rparr>" f cfg "a + 1" "Some m"]
      show ?thesis by (subst fetchEventsWithRetry_loop.simps) simp
    next
      case False
      with le Inl
        loop_calls_lower [of "tr\<lparr> fetchCalls := fetchCalls tr + 1 \<rparr>" f cfg "a + 1" "Some m"]
      show ?thesis by (subst fetchEventsWithRetry_loop.simps) simp
    qed
  qed
qed

lemma loop_sleeps:
  "sleeps (snd (fetchEventsWithRetry_loop f cfg a le tr)) =
     sleeps tr @ map (\<lambda>attempt. retryDelayMs cfg * 2 ^ (attempt - 1))
       [a ..< a + (fetchCalls (snd (fetchEventsWithRetry_loop f cfg a le tr)) - fetchCalls tr) - 1]"
proof (induction f cfg a le tr rule: fetchEventsWithRetry_loop.induct)
  case (1 f cfg a le tr)
  show ?case
  proof (cases "int a \<le> retryAttempts cfg")
    case False
    then show ?thesis by (subst (1 2) fetchEventsWithRetry_loop.simps) simp
  next
    case True
    show ?thesis
    proof (cases "f a")
      case (Inr evs)
      with True show ?thesis by (subst (1 2) fetchEventsWithRetry_loop.simps) simp
    next
      case (Inl m)
      show ?thesis
      proof (cases "int a < retryAttempts cfg")
        case lt: True
        define tr1 where "tr1 = tr\<lparr> fetchCalls := fetchCalls tr + 1,
              sleeps := sleeps tr @ [retryDelayMs cfg * 2 ^ (a - 1)] \<rparr>"
        define res where "res = fetchEventsWithRetry_loop f cfg (a + 1) (Some m) tr1"
        have unf: "fetchEventsWithRetry_loop f cfg a le tr = res"
          using True Inl lt by (subst fetchEventsWithRetry_loop.simps) (simp add: res_def tr1_def)
        from lt have "int (a + 1) \<le> retryAttempts cfg" by simp
        from loop_calls_step [OF this, of tr1 f "Some m"]
        have more: "fetchCalls tr + 2 \<le> fetchCalls (snd res)"
          by (simp add: res_def tr1_def)
        from "1.IH"(1) [OF True Inl lt]
        have "sleeps (snd res) = sleeps tr1 @ map (\<lambda>attempt. retryDelayMs cfg * 2 ^ (attempt - 1))
               [a + 1 ..< a + 1 + (fetchCalls (snd res) - fetchCalls tr1) - 1]"
          by (simp add: res_def tr1_def)
        moreover have "[a ..< a + (fetchCalls (snd res) - fetchCalls tr) - 1]
            = a # [a + 1 ..< a + 1 + (fetchCalls (snd res) - fetchCalls tr1) - 1]"
          using more by (simp add: tr1_def upt_conv_Cons)
        ultimately show ?thesis
          unfolding unf by (simp add: tr1_def)
      next
        case ge: False
        define tr1 where "tr1 = tr\<lparr> fetchCalls := fetchCalls tr + 1 \<rparr>"
        have stop: "fetchEventsWithRetry_loop f cfg (a + 1) (Some m) tr1
            = (Inl (Error (''Failed to fetch events after '' @ toString (retryAttempts cfg)
                     @ '' attempts: '' @ m)), tr1)"
          using ge by (subst fetchEventsWithRetry_loop.simps) simp
        have unf: "fetchEventsWithRetry_loop f cfg a le tr
            = fetchEventsWithRetry_loop f cfg (a + 1) (Some m) tr1"
          using True Inl ge by (subst fetchEventsWithRetry_loop.simps) (simp add: tr1_def)
        show ?thesis unfolding unf stop by (simp add: tr1_def)
      qed
    qed
  qed
qed

lemma loop_all_fail:
  "int a \<le> retryAttempts cfg \<Longrightarrow> \<forall>k. a \<le> k \<and> int k \<le> retryAttempts cfg \<longrightarrow> isl (f k) \<Longrightarrow>
   fst (fetchEventsWithRetry_loop f cfg a le tr) =
     Inl (Error (''Failed to fetch events after '' @ toString (retryAttempts cfg)
           @ '' attempts: '' @ projl (f (nat (retryAttempts cfg)))))
   \<and> int (fetchCalls (snd (fetchEventsWithRetry_loop f cfg a le tr)))
       = int (fetchCalls tr) + (retryAttempts cfg + 1 - int a)"
proof (induction f cfg a le tr rule: fetchEventsWithRetry_loop.induct)
  case (1 f cfg a le tr)
  from "1.prems" have "isl (f a)" by simp
  then obtain m where Inl: "f a = Inl m" by (cases "f a") auto
  note le = "1.prems"(1)
  show ?case
  proof (cases "int a < retryAttempts cfg")
    case lt: True
    define tr1 where "tr1 = tr\<lparr> fetchCalls := fetchCalls tr + 1,
          sleeps := sleeps tr @ [retryDelayMs cfg * 2 ^ (a - 1)] \<rparr>"
    have unf: "fetchEventsWithRetry_loop f cfg a le tr
        = fetchEventsWithRetry_loop f cfg (a + 1) (Some m) tr1"
      using le Inl lt by (subst fetchEventsWithRetry_loop.simps) (simp add: tr1_def)
    from lt have le': "int (a + 1) \<le> retryAttempts cfg" by simp
    from "1.prems"(2) have all': "\<forall>k. a + 1 \<le> k \<and> int k \<le> retryAttempts cfg \<longrightarrow> isl (f k)"
      by simp
    from "1.IH"(1) [OF le Inl lt le' all'] show ?thesis
      unfolding unf by (simp add: tr1_def)
  next
    case ge: False
    with le have eq: "retryAttempts cfg = int a" by simp
    define tr1 where "tr1 = tr\<lparr> fetchCalls := fetchCalls tr + 1 \<rparr>"
    have stop: "fetchEventsWithRetry_loop f cfg (a + 1) (Some m) tr1
        = (Inl (Error (''Failed to fetch events after '' @ toString (retryAttempts cfg)
                 @ '' attempts: '' @ m)), tr1)"
      using ge by (subst fetchEventsWithRetry_loop.simps) simp
    have unf: "fetchEventsWithRetry_loop f cfg a le tr
        = fetchEventsWithRetry_loop f cfg (a + 1) (Some m) tr1"
      using le Inl ge by (subst fetchEventsWithRetry_loop.simps) (simp add: tr1_def)
    show ?thesis unfolding unf stop using Inl eq by (simp add: tr1_def)
  qed
qed

lemma loop_first_success:
  "a \<le> j \<Longrightarrow> int j \<le> retryAttempts cfg \<Longrightarrow> f j = Inr evs \<Longrightarrow>
   \<forall>k. a \<le> k \<and> k < j \<longrightarrow> isl (f k) \<Longrightarrow>
   fst (fetchEventsWithRetry_loop f cfg a le tr) = Inr evs
   \<and> fetchCalls (snd (fetchEventsWithRetry_loop f cfg a le tr)) = fetchCalls tr + (j + 1 - a)"
proof (induction f cfg a le tr rule: fetchEventsWithRetry_loop.induct)
  case (1 f cfg a le tr)
  from "1.prems" have le: "int a \<le> retryAttempts cfg" by simp
  show ?case
  proof (cases "a = j")
    case True
    with le "1.prems" show ?thesis by (subst (1 2) fetchEventsWithRetry_loop.simps) simp
  next
    case False
    with "1.prems" have aj: "a < j" by simp
    with "1.prems" have "isl (f a)" by simp
    then obtain m where Inl: "f a = Inl m" by (cases "f a") auto
    from aj "1.prems" have lt: "int a < retryAttempts cfg" by simp
    define tr1 where "tr1 = tr\<lparr> fetchCalls := fetchCalls tr + 1,
          sleeps := sleeps tr @ [retryDelayMs cfg * 2 ^ (a - 1)] \<rparr>"
    have unf: "fetchEventsWithRetry_loop f cfg a le tr
        = fetchEventsWithRetry_loop f cfg (a + 1) (Some m) tr1"
      using le Inl lt by (subst fetchEventsWithRetry_loop.simps) (simp add: tr1_def)
    from aj have a1: "a + 1 \<le> j" by simp
    from "1.prems"(4) have all': "\<forall>k. a + 1 \<le> k \<and> k < j \<longrightarrow> isl (f k)" by simp
    from "1.IH"(1) [OF le Inl lt a1 "1.prems"(2) "1.prems"(3) all'] aj show ?thesis
      unfolding unf by (simp add: tr1_def)
  qed
qed

text \<open>
  Claim C7. \<^verbatim>\<open>fetchEventsWithRetry\<close> calls \<^verbatim>\<open>fetchEvents\<close> at most
  \<^verbatim>\<open>retryAttempts\<close> times. The delays it sleeps are \<open>retryDelayMs * 2 ^ (attempt - 1)\<close>
  for the attempts 1, 2, ... up to the one before its last call, in this order. When every
  attempt from 1 to \<^verbatim>\<open>retryAttempts\<close> fails it has made \<^verbatim>\<open>retryAttempts\<close> calls and
  throws an error whose message holds the attempt count and the message of the last
  failure. When an attempt succeeds after failures only, it returns that attempt's events
  and calls no further. With three attempts and a delay of 1000 the delays are 1000 and
  2000, then the error.
\<close>

theorem fetchEventsWithRetry_backoff:
  "int (fetchCalls (snd (fetchEventsWithRetry f cfg))) \<le> max 0 (retryAttempts cfg)
   \<and> sleeps (snd (fetchEventsWithRetry f cfg))
       = map (\<lambda>attempt. retryDelayMs cfg * 2 ^ (attempt - 1))
           [1 ..< fetchCalls (snd (fetchEventsWithRetry f cfg))]
   \<and> (1 \<le> retryAttempts cfg \<and> (\<forall>k\<in>{1 .. nat (retryAttempts cfg)}. isl (f k)) \<longrightarrow>
        fst (fetchEventsWithRetry f cfg)
          = Inl (Error (''Failed to fetch events after '' @ toString (retryAttempts cfg)
                @ '' attempts: '' @ projl (f (nat (retryAttempts cfg)))))
      \<and> int (fetchCalls (snd (fetchEventsWithRetry f cfg))) = retryAttempts cfg)
   \<and> (\<forall>j evs. 1 \<le> j \<and> int j \<le> retryAttempts cfg \<and> f j = Inr evs
          \<and> (\<forall>k\<in>{1 ..< j}. isl (f k)) \<longrightarrow>
        fst (fetchEventsWithRetry f cfg) = Inr evs
      \<and> fetchCalls (snd (fetchEventsWithRetry f cfg)) = j)"
proof (intro conjI impI allI)
  show "int (fetchCalls (snd (fetchEventsWithRetry f cfg))) \<le> max 0 (retryAttempts cfg)"
    using loop_calls_upper [of f cfg 1 None "\<lparr> fetchCalls = 0, sleeps = [] \<rparr>"]
    by (simp add: fetchEventsWithRetry_def)
next
  show "sleeps (snd (fetchEventsWithRetry f cfg))
       = map (\<lambda>attempt. retryDelayMs cfg * 2 ^ (attempt - 1))
           [1 ..< fetchCalls (snd (fetchEventsWithRetry f cfg))]"
    using loop_sleeps [of f cfg 1 None "\<lparr> fetchCalls = 0, sleeps = [] \<rparr>"]
    by (simp add: fetchEventsWithRetry_def)
next
  assume a: "1 \<le> retryAttempts cfg \<and> (\<forall>k\<in>{1 .. nat (retryAttempts cfg)}. isl (f k))"
  then have le: "int 1 \<le> retryAttempts cfg"
    and all: "\<forall>k. 1 \<le> k \<and> int k \<le> retryAttempts cfg \<longrightarrow> isl (f k)"
    by auto
  from loop_all_fail [OF le all, of None "\<lparr> fetchCalls = 0, sleeps = [] \<rparr>"]
  show "fst (fetchEventsWithRetry f cfg)
          = Inl (Error (''Failed to fetch events after '' @ toString (retryAttempts cfg)
                @ '' attempts: '' @ projl (f (nat (retryAttempts cfg)))))"
    and "int (fetchCalls (snd (fetchEventsWithRetry f cfg))) = retryAttempts cfg"
    by (simp_all add: fetchEventsWithRetry_def)
next
  fix j evs
  assume a: "1 \<le> j \<and> int j \<le> retryAttempts cfg \<and> f j = Inr evs \<and> (\<forall>k\<in>{1 ..< j}. isl (f k))"
  then have all: "\<forall>k. 1 \<le> k \<and> k < j \<longrightarrow> isl (f k)" by auto
  from a loop_first_success [of 1 j cfg f evs None "\<lparr> fetchCalls = 0, sleeps = [] \<rparr>", OF _ _ _ all]
  show "fst (fetchEventsWithRetry f cfg) = Inr evs"
    and "fetchCalls (snd (fetchEventsWithRetry f cfg)) = j"
    by (simp_all add: fetchEventsWithRetry_def)
qed

theorem fetchEventsWithRetry_backoff_witness:
  "fst (fetchEventsWithRetry (\<lambda>k. Inl ''timeout'') ex_icfg)
     = Inl (Error ''Failed to fetch events after 3 attempts: timeout'')
   \<and> fetchCalls (snd (fetchEventsWithRetry (\<lambda>k. Inl ''timeout'') ex_icfg)) = 3
   \<and> sleeps (snd (fetchEventsWithRetry (\<lambda>k. Inl ''timeout'') ex_icfg)) = [1000, 2000]
   \<and> fst (fetchEventsWithRetry (\<lambda>k. if k = 1 then Inl ''timeout'' else Inr [ex_event ''e1'' []]) ex_icfg)
       = Inr [ex_event ''e1'' []]
   \<and> sleeps (snd (fetchEventsWithRetry
        (\<lambda>k. if k = 1 then Inl ''timeout'' else Inr [ex_event ''e1'' []]) ex_icfg)) = [1000]"
proof -
  have n: "retryAttempts ex_icfg = 3" "retryDelayMs ex_icfg = 1000"
    by (simp_all add: ex_icfg_def)
  have hyp: "1 \<le> retryAttempts ex_icfg
      \<and> (\<forall>k\<in>{1 .. nat (retryAttempts ex_icfg)}. isl ((\<lambda>k. Inl ''timeout'' :: fetch_outcome) k))"
    by (simp add: n)
  have three: "toString 3 = ''3''"
    by (simp add: toString_def digits.simps)
  have upt: "[Suc 0 ..< 3] = [Suc 0, 2]" "[Suc 0 ..< 2] = [Suc 0]"
    by (simp_all add: upt_rec)
  from fetchEventsWithRetry_backoff [of "\<lambda>k. Inl ''timeout''" ex_icfg] hyp
  have "fst (fetchEventsWithRetry (\<lambda>k. Inl ''timeout'') ex_icfg)
          = Inl (Error (''Failed to fetch events after '' @ toString 3 @ '' attempts: '' @ ''timeout''))"
    and c: "int (fetchCalls (snd (fetchEventsWithRetry (\<lambda>k. Inl ''timeout'') ex_icfg))) = 3"
    and s: "sleeps (snd (fetchEventsWithRetry (\<lambda>k. Inl ''timeout'') ex_icfg))
       = map (\<lambda>attempt. 1000 * 2 ^ (attempt - 1))
           [1 ..< fetchCalls (snd (fetchEventsWithRetry (\<lambda>k. Inl ''timeout'') ex_icfg))]"
    by (simp_all add: n)
  moreover from c have c': "fetchCalls (snd (fetchEventsWithRetry (\<lambda>k. Inl ''timeout'') ex_icfg)) = 3"
    by simp
  ultimately have failing: "fst (fetchEventsWithRetry (\<lambda>k. Inl ''timeout'') ex_icfg)
     = Inl (Error ''Failed to fetch events after 3 attempts: timeout'')
   \<and> fetchCalls (snd (fetchEventsWithRetry (\<lambda>k. Inl ''timeout'') ex_icfg)) = 3
   \<and> sleeps (snd (fetchEventsWithRetry (\<lambda>k. Inl ''timeout'') ex_icfg)) = [1000, 2000]"
    by (simp add: three upt)
  let ?f = "\<lambda>k::nat. if k = 1 then Inl ''timeout'' else (Inr [ex_event ''e1'' []] :: fetch_outcome)"
  have second: "(1::nat) \<le> 2 \<and> int 2 \<le> retryAttempts ex_icfg \<and> ?f 2 = Inr [ex_event ''e1'' []]
      \<and> (\<forall>k\<in>{1 ..< 2}. isl (?f k))"
    by (simp add: n)
  from fetchEventsWithRetry_backoff [of ?f ex_icfg] second
  have "fst (fetchEventsWithRetry ?f ex_icfg) = Inr [ex_event ''e1'' []]"
    and calls: "fetchCalls (snd (fetchEventsWithRetry ?f ex_icfg)) = 2"
    and "sleeps (snd (fetchEventsWithRetry ?f ex_icfg))
       = map (\<lambda>attempt. retryDelayMs ex_icfg * 2 ^ (attempt - 1))
           [1 ..< fetchCalls (snd (fetchEventsWithRetry ?f ex_icfg))]"
    by blast+
  then have "fst (fetchEventsWithRetry ?f ex_icfg) = Inr [ex_event ''e1'' []]
      \<and> sleeps (snd (fetchEventsWithRetry ?f ex_icfg)) = [1000]"
    by (simp add: n upt)
  with failing show ?thesis by blast
qed

subsection \<open>Milestone handlers\<close>

lemma toString_42: "toString 42 = ''42''"
  by (simp add: toString_def digits.simps)

lemma MilestoneApproved_handle_effect:
  "projectId (data event) = Some pid \<Longrightarrow>
   MilestoneApproved_handle event db =
     (case findUnique_project (toString pid) db of
        None \<Rightarrow> (Inr (), db)
      | Some project \<Rightarrow>
          (Inr (), db\<lparr> milestones :=
             map (\<lambda>m. if ms_projectId m = prj_id project then m\<lparr> ms_status := ''APPROVED'' \<rparr> else m)
               (milestones db) \<rparr>))"
  by (simp add: MilestoneApproved_handle_def updateMany_milestone_def split: option.splits)

lemma FundsReleased_handle_effect:
  "projectId (data event) = Some pid \<Longrightarrow>
   FundsReleased_handle event db =
     (case findUnique_project (toString pid) db of
        None \<Rightarrow> (Inr (), db)
      | Some project \<Rightarrow>
          (Inr (), db\<lparr> milestones :=
             map (\<lambda>m. if ms_projectId m = prj_id project
                       then m\<lparr> ms_status := ''FUNDED'', completionDate := Some (ledgerClosedAt event) \<rparr>
                       else m)
               (milestones db) \<rparr>))"
  by (simp add: FundsReleased_handle_def updateMany_milestone_def split: option.splits)

text \<open>
  Claim C8. The claim is that a MilestoneApproved event marks only the matching milestone of
  its project approved, that a FundsReleased event marks only the relevant milestone
  funded, and that every other milestone of the project keeps its status. The handlers
  select the milestones by project alone: with two pending milestones of project 42 and a
  third of another project, an event that names milestone 0 of project 42 leaves both
  milestones of project 42 approved, and funded likewise; only the milestone of the other
  project keeps its status.
\<close>

theorem milestone_handlers_mark_every_milestone:
  "map ms_status (milestones (snd (MilestoneApproved_handle
       (ex_parsed MILESTONE_APPROVED (ex_data\<lparr> milestoneId := Some 0 \<rparr>)) ex_domain)))
     = [''APPROVED'', ''APPROVED'', ''PENDING'']
   \<and> map ms_status (milestones (snd (FundsReleased_handle
       (ex_parsed FUNDS_RELEASED (ex_data\<lparr> milestoneId := Some 0, amount := Some ''100'' \<rparr>)) ex_domain)))
     = [''FUNDED'', ''FUNDED'', ''PENDING'']"
  by (simp add: MilestoneApproved_handle_def FundsReleased_handle_def updateMany_milestone_def
      findUnique_project_def ex_parsed_def ex_data_def ex_domain_def toString_42)

subsection \<open>Validation of a contribution\<close>

lemma handler_of_contrib:
  "getHandler (registerHandlers bigint) CONTRIBUTION_MADE =
     Some \<lparr> h_eventType = CONTRIBUTION_MADE, validate = ContributionMade_validate,
            handle = ContributionMade_handle bigint \<rparr>"
  by (simp add: getHandler_def registerHandlers_def register_def)

lemma ContributionMade_invalid_skipped:
  "eventType event = CONTRIBUTION_MADE \<Longrightarrow>
   projectId (data event) = None \<or> \<not> truthy_string (contributor (data event))
     \<or> \<not> truthy_string (amount (data event)) \<Longrightarrow>
   EventHandlerService_processEvent bigint event db = (Inr False, db)"
  by (auto simp: EventHandlerService_processEvent_def handler_of_contrib ContributionMade_validate_def)

text \<open>
  Claim C9. The claim is that a ContributionMade event with a missing required field, the
  running total \<^verbatim>\<open>totalRaised\<close> included, is skipped without an error and without a
  change to a domain entity. The validation reads the project id, the contributor and the
  amount and not the running total: an event for the known project 42 that lacks only
  \<^verbatim>\<open>totalRaised\<close> passes the validation, the handler creates the user and the
  contribution, and then processing throws a TypeError.
\<close>

theorem ContributionMade_missing_totalRaised:
  "ContributionMade_validate
     (ex_parsed CONTRIBUTION_MADE (ex_data\<lparr> contributor := Some ''GABC'', amount := Some ''100'' \<rparr>))
   \<and> fst (EventHandlerService_processEvent ex_bigint
        (ex_parsed CONTRIBUTION_MADE (ex_data\<lparr> contributor := Some ''GABC'', amount := Some ''100'' \<rparr>))
        ex_domain) = Inl TypeError
   \<and> map walletAddress (users (snd (EventHandlerService_processEvent ex_bigint
        (ex_parsed CONTRIBUTION_MADE (ex_data\<lparr> contributor := Some ''GABC'', amount := Some ''100'' \<rparr>))
        ex_domain))) = [''GABC'']
   \<and> map ctb_amount (contributions (snd (EventHandlerService_processEvent ex_bigint
        (ex_parsed CONTRIBUTION_MADE (ex_data\<lparr> contributor := Some ''GABC'', amount := Some ''100'' \<rparr>))
        ex_domain))) = [100]
   \<and> users ex_domain = [] \<and> contributions ex_domain = []"
  by (simp add: EventHandlerService_processEvent_def handler_of_contrib ContributionMade_validate_def
      ContributionMade_handle_def truthy_string_def upsert_user_def findUnique_project_def BigInt_def
      ex_bigint_def ex_parsed_def ex_data_def ex_domain_def toString_42 Let_def)

subsection \<open>The dedup gate\<close>

text \<open>
  The decoder of the source extracts no field of the payload, and every registered handler
  refuses an event without a project id. So, through the handler service of the source, no
  event is ever applied: processing returns false and leaves the indexer as it was.
\<close>

lemma registered_need_projectId:
  "projectId (data event) = None \<Longrightarrow>
   (case getHandler (registerHandlers bigint) t of
      None \<Rightarrow> True
    | Some handler \<Rightarrow> \<not> validate handler event)"
  by (simp add: getHandler_def registerHandlers_def register_def ProjectStatus_validate_def
      FundsReleased_validate_def MilestoneApproved_validate_def ContributionMade_validate_def
      ProjectCreated_validate_def)

lemma undecoded_not_handled:
  "projectId (data event) = None \<Longrightarrow>
   EventHandlerService_processEvent bigint event db = (Inr False, db)"
  using registered_need_projectId [of event bigint "eventType event"]
  by (simp add: EventHandlerService_processEvent_def split: option.splits)

lemma parseEvent_no_projectId:
  "parseEvent ev = Some p \<Longrightarrow> projectId (data p) = None"
  by (auto simp: parseEvent_def parseEventData_def split: list.splits if_splits option.splits)

lemma pipeline_applies_nothing:
  "IndexerService_processEvent (EventHandlerService_processEvent bigint) cfg ev s = (Inr False, s)"
proof (cases "parseEvent ev")
  case None
  then show ?thesis by (simp add: IndexerService_processEvent_def)
next
  case (Some p)
  from parseEvent_no_projectId [OF Some]
  have "EventHandlerService_processEvent bigint p (domain s) = (Inr False, domain s)"
    by (rule undecoded_not_handled)
  with Some show ?thesis by (simp add: IndexerService_processEvent_def)
qed


lemma processEvent_dispatches_unprocessed:
  "\<not> isEventProcessed (tracker_cfg cfg) (tracker s) (ev_id event) \<Longrightarrow>
   parseEvent event = Some parsed \<Longrightarrow>
   fst (IndexerService_processEvent eventHandler cfg event s) = fst (eventHandler parsed (domain s))
   \<and> domain (snd (IndexerService_processEvent eventHandler cfg event s))
       = snd (eventHandler parsed (domain s))"
  by (auto simp: IndexerService_processEvent_def split: prod.splits sum.splits)




subsection \<open>The poll cycle\<close>

lemma processEvent_frame:
  "ledgerCursor (tracker (snd (IndexerService_processEvent h cfg ev s))) = ledgerCursor (tracker s)
   \<and> isRunning (snd (IndexerService_processEvent h cfg ev s)) = isRunning s"
  by (simp add: IndexerService_processEvent_def markEventProcessed_def
      split: option.splits prod.splits sum.splits)

lemma processBatch_frame:
  "ledgerCursor (tracker (snd (snd (processBatch h cfg evs acc)))) = ledgerCursor (tracker (snd (snd acc)))
   \<and> isRunning (snd (snd (processBatch h cfg evs acc))) = isRunning (snd (snd acc))"
proof (induction evs arbitrary: acc)
  case Nil
  show ?case by simp
next
  case (Cons ev evs)
  obtain p n s where acc: "acc = (p, n, s)" by (cases acc) auto
  obtain r s1 where step: "IndexerService_processEvent h cfg ev s = (r, s1)"
    by (cases "IndexerService_processEvent h cfg ev s") auto
  from processEvent_frame [of h cfg ev s] step
  have kept: "ledgerCursor (tracker s1) = ledgerCursor (tracker s)" "isRunning s1 = isRunning s"
    by simp_all
  show ?case
  proof (cases r)
    case (Inl e)
    with acc step kept Cons.IH show ?thesis by (simp add: logError_def)
  next
    case (Inr success)
    with acc step kept Cons.IH show ?thesis by simp
  qed
qed

lemma processEvent_keeps_rows:
  "list_ex (\<lambda>r. pe_eventId r = i) (processedEvent (tracker s)) \<Longrightarrow>
   list_ex (\<lambda>r. pe_eventId r = i)
     (processedEvent (tracker (snd (IndexerService_processEvent h cfg ev s))))"
  by (auto simp: IndexerService_processEvent_def markEventProcessed_def list_ex_iff
      split: option.splits prod.splits sum.splits)

lemma processEvent_marks:
  assumes "parseEvent ev = Some p" and "\<forall>d. fst (h p d) = Inr True"
  shows "list_ex (\<lambda>r. pe_eventId r = ev_id ev)
     (processedEvent (tracker (snd (IndexerService_processEvent h cfg ev s))))"
proof (cases "isEventProcessed (tracker_cfg cfg) (tracker s) (ev_id ev)")
  case True
  then have "filter (\<lambda>r. pe_eventId r = ev_id ev \<and> pe_network r = network (tracker_cfg cfg))
      (processedEvent (tracker s)) \<noteq> []"
    by (simp add: isEventProcessed_def)
  then have "list_ex (\<lambda>r. pe_eventId r = ev_id ev) (processedEvent (tracker s))"
    by (auto simp: filter_empty_conv list_ex_iff)
  with True show ?thesis by (simp add: IndexerService_processEvent_def)
next
  case False
  from assms(2) obtain d' where "h p (domain s) = (Inr True, d')"
    by (metis fst_conv surj_pair)
  with False assms(1) show ?thesis
    by (auto simp: IndexerService_processEvent_def markEventProcessed_def list_ex_iff)
qed

lemma processBatch_keeps_rows:
  "list_ex (\<lambda>r. pe_eventId r = i) (processedEvent (tracker (snd (snd acc)))) \<Longrightarrow>
   list_ex (\<lambda>r. pe_eventId r = i)
     (processedEvent (tracker (snd (snd (processBatch h cfg evs acc)))))"
proof (induction evs arbitrary: acc)
  case Nil
  then show ?case by simp
next
  case (Cons ev evs)
  obtain p n s where acc: "acc = (p, n, s)" by (cases acc) auto
  obtain r s1 where step: "IndexerService_processEvent h cfg ev s = (r, s1)"
    by (cases "IndexerService_processEvent h cfg ev s") auto
  from processEvent_keeps_rows [of i s h cfg ev] Cons.prems acc step
  have kept: "list_ex (\<lambda>r. pe_eventId r = i) (processedEvent (tracker s1))"
    by simp
  show ?case
  proof (cases r)
    case (Inl e)
    with acc step kept show ?thesis by (simp add: Cons.IH logError_def)
  next
    case (Inr success)
    with acc step kept show ?thesis by (simp add: Cons.IH)
  qed
qed

lemma processBatch_marks:
  assumes "ev \<in> set evs" and "parseEvent ev = Some p" and "\<forall>d. fst (h p d) = Inr True"
  shows "list_ex (\<lambda>r. pe_eventId r = ev_id ev)
     (processedEvent (tracker (snd (snd (processBatch h cfg evs acc)))))"
  using assms(1)
proof (induction evs arbitrary: acc)
  case Nil
  then show ?case by simp
next
  case (Cons x evs)
  obtain n m s where acc: "acc = (n, m, s)" by (cases acc) auto
  obtain r s1 where step: "IndexerService_processEvent h cfg x s = (r, s1)"
    by (cases "IndexerService_processEvent h cfg x s") auto
  show ?case
  proof (cases "x = ev")
    case True
    from processEvent_marks [where h = h and cfg = cfg and s = s, OF assms(2,3)] True step
    have marked: "list_ex (\<lambda>r. pe_eventId r = ev_id ev) (processedEvent (tracker s1))"
      by simp
    show ?thesis
    proof (cases r)
      case (Inl e)
      with acc step marked show ?thesis
        by (simp add: processBatch_keeps_rows logError_def)
    next
      case (Inr success)
      with acc step marked show ?thesis
        by (simp add: processBatch_keeps_rows)
    qed
  next
    case False
    with Cons.prems have "ev \<in> set evs" by simp
    with acc step show ?thesis
      by (cases r) (simp_all add: Cons.IH)
  qed
qed

lemma getLastCursor_cong:
  "ledgerCursor st' = ledgerCursor st \<Longrightarrow> getLastCursor cfg st' = getLastCursor cfg st"
  by (simp add: getLastCursor_def)

lemma updateCursor_succeeds:
  "getLastCursor cfg st \<noteq> None \<Longrightarrow> \<exists>st'. updateCursor cfg k h st = Inr st'
      \<and> processedEvent st' = processedEvent st \<and> indexerLog st' = indexerLog st"
  using getLastCursor_exists [of cfg st] by (simp add: updateCursor_def)

lemma pollEvents_idle:
  assumes idle: "\<not> isRunning s"
    and cur: "getLastCursor (tracker_cfg cfg) (tracker s) = Some c"
    and latest: "rpc_latestLedger rpc = Inr L"
    and range: "lastLedgerSeq c + 1 \<le> L"
  shows "pollEvents h cfg rpc s =
    (case fst (fetchEventsWithRetry (rpc_fetchEvents rpc (lastLedgerSeq c + 1) L) cfg) of
       Inl e \<Rightarrow> poll_failed s
     | Inr events \<Rightarrow>
         if events = [] then
           (case updateCursor (tracker_cfg cfg) L None (tracker s) of
              Inl e \<Rightarrow> poll_failed s
            | Inr tr \<Rightarrow> s\<lparr> tracker := tr, isRunning := False \<rparr>)
         else
           (let (processedCount, errorCount, s1) = processBatch h cfg events (0, 0, s)
            in case updateCursor (tracker_cfg cfg) L None (tracker s1) of
                 Inl e \<Rightarrow> poll_failed s1
               | Inr tr \<Rightarrow>
                   s1\<lparr> tracker := logProgress L L (int processedCount) tr,
                       isRunning := False \<rparr>))"
  unfolding pollEvents_def Let_def using idle cur latest range
  apply (simp only: if_False option.case sum.case)
  apply (simp only: not_less [symmetric] if_False)
  done

text \<open>
  A poll cycle never removes the cursor: with the lemma on \<^verbatim>\<open>getStartLedger\<close> above,
  every cycle of a started indexer finds a cursor.
\<close>

lemma updateCursor_keeps_networks:
  "updateCursor cfg k h st = Inr st' \<Longrightarrow>
   map cur_network (ledgerCursor st') = map cur_network (ledgerCursor st)"
proof -
  have "map cur_network (map (\<lambda>r. if cur_network r = n then f r\<lparr> cur_lastLedgerSeq := a,
      cur_lastLedgerHash := b \<rparr> else r) xs) = map cur_network xs"
    if "\<And>r. f r = r" for n a b xs and f :: "cursor_row \<Rightarrow> cursor_row"
    using that by (induction xs) auto
  from this [of "\<lambda>r. r"] show "updateCursor cfg k h st = Inr st' \<Longrightarrow>
   map cur_network (ledgerCursor st') = map cur_network (ledgerCursor st)"
    by (auto simp: updateCursor_def split: if_splits)
qed

lemma list_ex_networks:
  "list_ex (\<lambda>r. cur_network r = n) xs = list_ex (\<lambda>x. x = n) (map cur_network xs)"
  by (induction xs) auto

lemma has_cursor_by_networks:
  "getLastCursor cfg st \<noteq> None
     \<longleftrightarrow> list_ex (\<lambda>x. x = network cfg) (map cur_network (ledgerCursor st))"
  by (simp only: getLastCursor_exists list_ex_networks)

lemma pollEvents_preserves_cursor:
  assumes "getLastCursor (tracker_cfg cfg) (tracker s) \<noteq> None"
  shows "getLastCursor (tracker_cfg cfg) (tracker (pollEvents h cfg rpc s)) \<noteq> None"
proof -
  from assms obtain c where cur: "getLastCursor (tracker_cfg cfg) (tracker s) = Some c"
    by auto
  have failed: "getLastCursor (tracker_cfg cfg) (tracker (poll_failed s')) \<noteq> None"
    if "ledgerCursor (tracker s') = ledgerCursor (tracker s)" for s'
    using assms that by (simp add: getLastCursor_def poll_failed_def logError_def)
  have updated: "getLastCursor (tracker_cfg cfg) t' \<noteq> None"
    if "updateCursor (tracker_cfg cfg) k None t = Inr tr" "ledgerCursor t' = ledgerCursor tr"
      "ledgerCursor t = ledgerCursor (tracker s)" for k t tr t'
    using assms updateCursor_keeps_networks [OF that(1)] that(2,3)
    by (simp only: has_cursor_by_networks)
  show ?thesis
  proof (cases "isRunning s")
    case True
    with assms show ?thesis by (simp add: pollEvents_def)
  next
    case idle: False
    show ?thesis
    proof (cases "rpc_latestLedger rpc")
      case (Inl e)
      with idle have "pollEvents h cfg rpc s = poll_failed s"
        by (simp add: pollEvents_def)
      with failed [of s] show ?thesis by simp
    next
      case (Inr L)
      show ?thesis
      proof (cases "lastLedgerSeq c + 1 \<le> L")
        case False
        with idle cur Inr have "pollEvents h cfg rpc s = s\<lparr> isRunning := False \<rparr>"
          by (simp add: pollEvents_def)
        with assms show ?thesis by (simp add: getLastCursor_def)
      next
        case True
        note unfold = pollEvents_idle [OF idle cur Inr True, of h]
        show ?thesis
        proof (cases "fst (fetchEventsWithRetry (rpc_fetchEvents rpc (lastLedgerSeq c + 1) L) cfg)")
          case (Inl e)
          with unfold failed [of s] show ?thesis by simp
        next
          case fetched: (Inr events)
          obtain n m s1 where run: "processBatch h cfg events (0, 0, s) = (n, m, s1)"
            by (cases "processBatch h cfg events (0, 0, s)") auto
          from processBatch_frame [of h cfg events "(0, 0, s)"] run
          have same: "ledgerCursor (tracker s1) = ledgerCursor (tracker s)" by simp
          show ?thesis
          proof (cases "events = []")
            case True
            show ?thesis
            proof (cases "updateCursor (tracker_cfg cfg) L None (tracker s)")
              case (Inl e)
              with unfold fetched True failed [of s] show ?thesis by simp
            next
              case (Inr tr)
              with unfold fetched True updated [OF Inr, of tr] show ?thesis by simp
            qed
          next
            case False
            show ?thesis
            proof (cases "updateCursor (tracker_cfg cfg) L None (tracker s1)")
              case (Inl e)
              with unfold fetched False run failed [OF same] show ?thesis by simp
            next
              case (Inr tr)
              from updated [OF Inr _ same, of "logProgress L L (int n) tr"]
              have "getLastCursor (tracker_cfg cfg) (logProgress L L (int n) tr) \<noteq> None"
                by (simp add: logProgress_def)
              with unfold fetched False run Inr show ?thesis by simp
            qed
          qed
        qed
      qed
    qed
  qed
qed

text \<open>
  Claim C3. Take an idle indexer with a cursor, a latest ledger \<open>L\<close> obtained from the RPC
  and a range from the cursor's sequence plus one to \<open>L\<close> that is not empty. When the
  fetch fails for good, the cycle leaves the cursor table, the dedup table and the domain
  tables as they were. When the fetch returns events, none included, the cursor reads \<open>L\<close>
  after the cycle, for every handler service, failing or not; and every fetched event that
  decodes and whose handler succeeds has a dedup row after the cycle, whatever happened to
  the events before it. So the cursor reads \<open>L\<close> exactly when the fetch succeeded. The
  running flag is down at the end.
\<close>

theorem pollEvents_cursor:
  assumes idle: "\<not> isRunning s"
    and cur: "getLastCursor (tracker_cfg cfg) (tracker s) = Some c"
    and latest: "rpc_latestLedger rpc = Inr L"
    and range: "lastLedgerSeq c + 1 \<le> L"
  shows "(isl (fst (fetchEventsWithRetry (rpc_fetchEvents rpc (lastLedgerSeq c + 1) L) cfg)) \<longrightarrow>
            ledgerCursor (tracker (pollEvents h cfg rpc s)) = ledgerCursor (tracker s)
          \<and> processedEvent (tracker (pollEvents h cfg rpc s)) = processedEvent (tracker s)
          \<and> domain (pollEvents h cfg rpc s) = domain s)
    \<and> (\<forall>events. fst (fetchEventsWithRetry (rpc_fetchEvents rpc (lastLedgerSeq c + 1) L) cfg) = Inr events \<longrightarrow>
            getLastCursor (tracker_cfg cfg) (tracker (pollEvents h cfg rpc s))
              = Some \<lparr> network_of = network (tracker_cfg cfg), lastLedgerSeq = L, lastLedgerHash = None \<rparr>
          \<and> (\<forall>event p. event \<in> set events \<and> parseEvent event = Some p
                  \<and> (\<forall>d. fst (h p d) = Inr True) \<longrightarrow>
                list_ex (\<lambda>r. pe_eventId r = ev_id event)
                  (processedEvent (tracker (pollEvents h cfg rpc s)))))
    \<and> ((map_option lastLedgerSeq
            (getLastCursor (tracker_cfg cfg) (tracker (pollEvents h cfg rpc s))) = Some L)
         = (\<not> isl (fst (fetchEventsWithRetry (rpc_fetchEvents rpc (lastLedgerSeq c + 1) L) cfg))))
    \<and> \<not> isRunning (pollEvents h cfg rpc s)"
proof -
  define fetched where "fetched = fst (fetchEventsWithRetry (rpc_fetchEvents rpc (lastLedgerSeq c + 1) L) cfg)"
  note unfold = pollEvents_idle [OF idle cur latest range, of h, folded fetched_def]
  have failed: "pollEvents h cfg rpc s = poll_failed s" if "fetched = Inl e" for e
    using unfold that by simp
  have empty: "pollEvents h cfg rpc s = s\<lparr> tracker := tr, isRunning := False \<rparr>"
    if "fetched = Inr []" "updateCursor (tracker_cfg cfg) L None (tracker s) = Inr tr" for tr
    using unfold that by simp
  have batch: "pollEvents h cfg rpc s = s1\<lparr> tracker := logProgress L L (int n) tr, isRunning := False \<rparr>"
    if "fetched = Inr events" "events \<noteq> []" "processBatch h cfg events (0, 0, s) = (n, m, s1)"
      "updateCursor (tracker_cfg cfg) L None (tracker s1) = Inr tr" for events n m s1 tr
    using unfold that by simp
  have a: "ledgerCursor (tracker (pollEvents h cfg rpc s)) = ledgerCursor (tracker s)"
      "processedEvent (tracker (pollEvents h cfg rpc s)) = processedEvent (tracker s)"
      "domain (pollEvents h cfg rpc s) = domain s" if "isl fetched"
  proof -
    from that obtain e where "fetched = Inl e" by (cases fetched) auto
    from failed [OF this]
    show "ledgerCursor (tracker (pollEvents h cfg rpc s)) = ledgerCursor (tracker s)"
      "processedEvent (tracker (pollEvents h cfg rpc s)) = processedEvent (tracker s)"
      "domain (pollEvents h cfg rpc s) = domain s"
      by (simp_all add: poll_failed_def logError_def)
  qed
  have cases: "(events = [] \<and> (\<exists>tr. updateCursor (tracker_cfg cfg) L None (tracker s) = Inr tr
          \<and> pollEvents h cfg rpc s = s\<lparr> tracker := tr, isRunning := False \<rparr>))
      \<or> (\<exists>n m s1 tr. processBatch h cfg events (0, 0, s) = (n, m, s1)
          \<and> updateCursor (tracker_cfg cfg) L None (tracker s1) = Inr tr
          \<and> processedEvent tr = processedEvent (tracker s1)
          \<and> pollEvents h cfg rpc s = s1\<lparr> tracker := logProgress L L (int n) tr, isRunning := False \<rparr>)"
    if f: "fetched = Inr events" for events
  proof (cases "events = []")
    case True
    from updateCursor_succeeds [of "tracker_cfg cfg" "tracker s" L None] cur
    obtain tr where upd: "updateCursor (tracker_cfg cfg) L None (tracker s) = Inr tr" by auto
    from empty [OF f [unfolded True] upd] upd True show ?thesis by simp
  next
    case False
    obtain n m s1 where run: "processBatch h cfg events (0, 0, s) = (n, m, s1)"
      by (cases "processBatch h cfg events (0, 0, s)") auto
    from processBatch_frame [of h cfg events "(0, 0, s)"] run
    have "ledgerCursor (tracker s1) = ledgerCursor (tracker s)" by simp
    from getLastCursor_cong [OF this, of "tracker_cfg cfg"] cur
    have "getLastCursor (tracker_cfg cfg) (tracker s1) \<noteq> None"
      by simp
    from updateCursor_succeeds [OF this, of L None]
    obtain tr where upd: "updateCursor (tracker_cfg cfg) L None (tracker s1) = Inr tr"
      and rows: "processedEvent tr = processedEvent (tracker s1)" by auto
    from batch [OF f False run upd] run upd rows show ?thesis by simp
  qed
  have b1: "getLastCursor (tracker_cfg cfg) (tracker (pollEvents h cfg rpc s))
              = Some \<lparr> network_of = network (tracker_cfg cfg), lastLedgerSeq = L, lastLedgerHash = None \<rparr>"
    if f: "fetched = Inr events" for events
    using cases [OF f]
  proof (elim disjE conjE exE)
    fix tr
    assume "updateCursor (tracker_cfg cfg) L None (tracker s) = Inr tr"
      and "pollEvents h cfg rpc s = s\<lparr> tracker := tr, isRunning := False \<rparr>"
    then show ?thesis
      using getLastCursor_updateCursor [of "tracker_cfg cfg" L None "tracker s" tr]
      by (simp add: or_absent_def)
  next
    fix n m s1 tr
    assume upd: "updateCursor (tracker_cfg cfg) L None (tracker s1) = Inr tr"
      and res: "pollEvents h cfg rpc s = s1\<lparr> tracker := logProgress L L (int n) tr, isRunning := False \<rparr>"
    have "getLastCursor (tracker_cfg cfg) (logProgress L L (int n) tr)
        = getLastCursor (tracker_cfg cfg) tr"
      by (rule getLastCursor_cong) (simp add: logProgress_def)
    with getLastCursor_updateCursor [OF upd] res show ?thesis
      by (simp add: or_absent_def)
  qed
  have b2: "list_ex (\<lambda>r. pe_eventId r = ev_id event) (processedEvent (tracker (pollEvents h cfg rpc s)))"
    if f: "fetched = Inr events" and ev: "event \<in> set events" "parseEvent event = Some p"
      "\<forall>d. fst (h p d) = Inr True" for events event p
    using cases [OF f]
  proof (elim disjE conjE exE)
    assume "events = []"
    with ev(1) show ?thesis by simp
  next
    fix n m s1 tr
    assume run: "processBatch h cfg events (0, 0, s) = (n, m, s1)"
      and rows: "processedEvent tr = processedEvent (tracker s1)"
      and res: "pollEvents h cfg rpc s = s1\<lparr> tracker := logProgress L L (int n) tr, isRunning := False \<rparr>"
    from processBatch_marks [where h = h and cfg = cfg and acc = "(0, 0, s)", OF ev] run
    have "list_ex (\<lambda>r. pe_eventId r = ev_id event) (processedEvent (tracker s1))"
      by simp
    with rows res show ?thesis by (simp add: logProgress_def)
  qed
  have c: "\<not> isRunning (pollEvents h cfg rpc s)"
  proof (cases fetched)
    case (Inl e)
    from failed [OF this] show ?thesis by (simp add: poll_failed_def)
  next
    case (Inr events)
    from cases [OF this] show ?thesis
      by (elim disjE conjE exE) simp_all
  qed
  have d: "(map_option lastLedgerSeq
            (getLastCursor (tracker_cfg cfg) (tracker (pollEvents h cfg rpc s))) = Some L)
         = (\<not> isl fetched)"
  proof (cases fetched)
    case (Inl e)
    then have "isl fetched" by simp
    from a(1) [OF this]
    have "getLastCursor (tracker_cfg cfg) (tracker (pollEvents h cfg rpc s))
        = getLastCursor (tracker_cfg cfg) (tracker s)"
      by (rule getLastCursor_cong)
    with cur range Inl show ?thesis by simp
  next
    case (Inr events)
    from b1 [OF this] Inr show ?thesis by simp
  qed
  show ?thesis
    unfolding fetched_def [symmetric]
  proof (intro conjI impI allI)
    fix events event p
    assume "fetched = Inr events"
      and "event \<in> set events \<and> parseEvent event = Some p \<and> (\<forall>d. fst (h p d) = Inr True)"
    then show "list_ex (\<lambda>r. pe_eventId r = ev_id event)
        (processedEvent (tracker (pollEvents h cfg rpc s)))"
      using b2 [of events event p] by simp
  next
    show "(map_option lastLedgerSeq
            (getLastCursor (tracker_cfg cfg) (tracker (pollEvents h cfg rpc s))) = Some L)
         = (\<not> isl fetched)"
      by (rule d)
  qed (simp_all add: a b1 c)
qed

lemma ex_cursor:
  "getLastCursor (tracker_cfg ex_icfg) (tracker ex_indexer)
     = Some \<lparr> network_of = ''testnet'', lastLedgerSeq = 49, lastLedgerHash = Some ''H49'' \<rparr>"
  by (simp add: getLastCursor_def ex_icfg_def ex_cfg_def ex_indexer_def or_absent_def)

lemma ex_fetch_ok:
  "fst (fetchEventsWithRetry (rpc_fetchEvents (ex_rpc (Inr evs)) (49 + 1) 80) ex_icfg) = Inr evs"
  by (simp add: fetchEventsWithRetry_def ex_rpc_def ex_icfg_def)
     (subst fetchEventsWithRetry_loop.simps, simp)

lemma ex_fetch_down:
  "isl (fst (fetchEventsWithRetry (rpc_fetchEvents (ex_rpc (Inl ''timeout'')) (49 + 1) 80) ex_icfg))"
  using loop_all_fail [of 1 ex_icfg "\<lambda>k. Inl ''timeout''" None "\<lparr> fetchCalls = 0, sleeps = [] \<rparr>"]
  by (simp add: fetchEventsWithRetry_def ex_rpc_def ex_icfg_def)

theorem pollEvents_cursor_witness:
  "map_option lastLedgerSeq (getLastCursor (tracker_cfg ex_icfg)
       (tracker (pollEvents (EventHandlerService_processEvent ex_bigint) ex_icfg
          (ex_rpc (Inr [])) ex_indexer))) = Some 80
   \<and> ledgerCursor (tracker (pollEvents (EventHandlerService_processEvent ex_bigint) ex_icfg
          (ex_rpc (Inl ''timeout'')) ex_indexer)) = ledgerCursor (tracker ex_indexer)
   \<and> map_option lastLedgerSeq (getLastCursor (tracker_cfg ex_icfg)
       (tracker (pollEvents ex_failing_service ex_icfg
          (ex_rpc (Inr [ex_event ''bad'' [''contrib''], ex_event ''good'' [''contrib'']]))
          ex_indexer))) = Some 80
   \<and> list_ex (\<lambda>r. pe_eventId r = ''good'')
       (processedEvent (tracker (pollEvents ex_failing_service ex_icfg
          (ex_rpc (Inr [ex_event ''bad'' [''contrib''], ex_event ''good'' [''contrib'']]))
          ex_indexer)))"
proof -
  have idle: "\<not> isRunning ex_indexer" by (simp add: ex_indexer_def)
  have latest: "rpc_latestLedger (ex_rpc outcome) = Inr 80" for outcome
    by (simp add: ex_rpc_def)
  have range: "lastLedgerSeq \<lparr> network_of = ''testnet'', lastLedgerSeq = 49,
      lastLedgerHash = Some ''H49'' \<rparr> + 1 \<le> (80::int)"
    by simp
  note poll = pollEvents_cursor [OF idle ex_cursor latest range]
  have good: "parseEvent (ex_event ''good'' [''contrib''])
      = Some \<lparr> eventId = ''good'', ledgerSeq = 60,
          ledgerClosedAt = DateOfString ''2026-01-01T00:00:00Z'', contractId = ''C1'',
          eventType = ''contrib'', transactionHash = ''tx1'',
          data = parseEventData ''AAAA'' ''contrib'', inSuccessfulContractCall = True \<rparr>"
    by (simp add: parseEvent_def parseEventType_def ContractEventType_values_def ex_event_def)
  have always: "\<forall>d. fst (ex_failing_service \<lparr> eventId = ''good'', ledgerSeq = 60,
          ledgerClosedAt = DateOfString ''2026-01-01T00:00:00Z'', contractId = ''C1'',
          eventType = ''contrib'', transactionHash = ''tx1'',
          data = parseEventData ''AAAA'' ''contrib'', inSuccessfulContractCall = True \<rparr> d) = Inr True"
    by (simp add: ex_failing_service_def)
  have id: "ev_id (ex_event ''good'' [''contrib'']) = ''good''"
    by (simp add: ex_event_def)
  from poll [of "Inr []" "EventHandlerService_processEvent ex_bigint"] ex_fetch_ok [of "[]"]
  have one: "map_option lastLedgerSeq (getLastCursor (tracker_cfg ex_icfg)
       (tracker (pollEvents (EventHandlerService_processEvent ex_bigint) ex_icfg
          (ex_rpc (Inr [])) ex_indexer))) = Some 80"
    by simp
  from poll [of "Inl ''timeout''" "EventHandlerService_processEvent ex_bigint"] ex_fetch_down
  have two: "ledgerCursor (tracker (pollEvents (EventHandlerService_processEvent ex_bigint) ex_icfg
          (ex_rpc (Inl ''timeout'')) ex_indexer)) = ledgerCursor (tracker ex_indexer)"
    by simp
  from poll [of "Inr [ex_event ''bad'' [''contrib''], ex_event ''good'' [''contrib'']]"
      ex_failing_service]
    ex_fetch_ok [of "[ex_event ''bad'' [''contrib''], ex_event ''good'' [''contrib'']]"]
  have three: "map_option lastLedgerSeq (getLastCursor (tracker_cfg ex_icfg)
       (tracker (pollEvents ex_failing_service ex_icfg
          (ex_rpc (Inr [ex_event ''bad'' [''contrib''], ex_event ''good'' [''contrib'']]))
          ex_indexer))) = Some 80"
    and marks: "\<forall>event p. event \<in> set [ex_event ''bad'' [''contrib''], ex_event ''good'' [''contrib'']]
        \<and> parseEvent event = Some p \<and> (\<forall>d. fst (ex_failing_service p d) = Inr True) \<longrightarrow>
        list_ex (\<lambda>r. pe_eventId r = ev_id event)
          (processedEvent (tracker (pollEvents ex_failing_service ex_icfg
            (ex_rpc (Inr [ex_event ''bad'' [''contrib''], ex_event ''good'' [''contrib'']]))
            ex_indexer)))"
    by simp_all
  from marks [rule_format, of "ex_event ''good'' [''contrib'']", OF conjI [OF _ conjI [OF good always]]]
  have four: "list_ex (\<lambda>r. pe_eventId r = ''good'')
       (processedEvent (tracker (pollEvents ex_failing_service ex_icfg
          (ex_rpc (Inr [ex_event ''bad'' [''contrib''], ex_event ''good'' [''contrib'']]))
          ex_indexer)))"
    by (simp add: id)
  from one two three four show ?thesis by blast
qed

end
